theory Spec2Isabelle
  imports Complex_Main "HOL-Library.Word" "HOL-Library.AList"
begin

chapter \<open>The model of the client core\<close>

text \<open>
  The definitions follow \<^verbatim>\<open>legacy.app.js\<close>. Strings are taken as ASCII text. Platform
  primitives (the Web Crypto digest and HMAC, \<^verbatim>\<open>JSON.stringify\<close>, the clock, the random
  source, the remote Exchange) are parameters: every theorem holds for all of them.
\<close>

section \<open>Bytes and hexadecimal text\<close>

text \<open>
  \<^verbatim>\<open>bytesToHex(bytes)\<close>: every byte of a \<^verbatim>\<open>Uint8Array\<close> is written as two lower-case
  hexadecimal digits (\<^verbatim>\<open>b.toString(16).padStart(2, "0")\<close>), and the pairs are joined.
\<close>

type_synonym byte = "8 word"

definition hex_digit :: "nat \<Rightarrow> char" where
  "hex_digit n = ''0123456789abcdef'' ! (n mod 16)"

definition dec_digit :: "nat \<Rightarrow> char" where
  "dec_digit n = ''0123456789'' ! (n mod 10)"

definition byte_hex :: "byte \<Rightarrow> string" where
  "byte_hex b = [hex_digit (unat b div 16), hex_digit (unat b mod 16)]"

definition bytesToHex :: "byte list \<Rightarrow> string" where
  "bytesToHex bytes = concat (map byte_hex bytes)"

text \<open>
  \<^verbatim>\<open>String(n)\<close> of a non-negative integer: its decimal digits, most significant first.
\<close>

fun String_nat :: "nat \<Rightarrow> string" where
  "String_nat n =
     (if n < 10 then [dec_digit n]
      else String_nat (n div 10) @ [dec_digit (n mod 10)])"

declare String_nat.simps [simp del]

text \<open>
  \<^verbatim>\<open>s.startsWith(p)\<close>, and the number of leading \<^verbatim>\<open>"0"\<close> characters of a string.
\<close>

definition startsWith :: "string \<Rightarrow> string \<Rightarrow> bool" where
  "startsWith s p = (take (length p) s = p)"

definition leading_zeros :: "string \<Rightarrow> nat" where
  "leading_zeros s = length (takeWhile (\<lambda>c. c = CHR ''0'') s)"

section \<open>Hashing\<close>

text \<open>
  \<^verbatim>\<open>sha256Hex(text)\<close> is \<^verbatim>\<open>bytesToHex\<close> of the platform's SHA-256 digest of the UTF-8
  encoding of \<^verbatim>\<open>text\<close>. The digest is the Web Crypto primitive
  \<^verbatim>\<open>crypto.subtle.digest("SHA-256", enc.encode(text))\<close>; it is a parameter of the model.
\<close>

definition sha256Hex :: "(string \<Rightarrow> byte list) \<Rightarrow> string \<Rightarrow> string" where
  "sha256Hex digest text = bytesToHex (digest text)"

section \<open>Strings\<close>

text \<open>
  \<^verbatim>\<open>s.toUpperCase()\<close> and \<^verbatim>\<open>s.trim()\<close> on ASCII text.
\<close>

definition upper_char :: "char \<Rightarrow> char" where
  "upper_char c =
     (case map_of (zip ''abcdefghijklmnopqrstuvwxyz'' ''ABCDEFGHIJKLMNOPQRSTUVWXYZ'') c of
        None \<Rightarrow> c
      | Some u \<Rightarrow> u)"

definition toUpperCase :: "string \<Rightarrow> string" where
  "toUpperCase s = map upper_char s"

definition is_space :: "char \<Rightarrow> bool" where
  "is_space c = (of_char c \<in> {9, 10, 11, 12, 13, 32 :: nat})"

definition trim :: "string \<Rightarrow> string" where
  "trim s = rev (dropWhile is_space (rev (dropWhile is_space s)))"

text \<open>
  \<^verbatim>\<open>hexToBytes(hex)\<close>:
  \<^verbatim>\<open>
    const clean = String(hex || "").trim();
    if (!/^[0-9a-fA-F]+$/.test(clean) || clean.length % 2 !== 0) return null;
    const out = new Uint8Array(clean.length / 2);
    for (let i = 0; i < out.length; i++)
      out[i] = parseInt(clean.slice(i * 2, i * 2 + 2), 16);
    return out;
  \<close>
\<close>

definition hex_value :: "char \<Rightarrow> nat option" where
  "hex_value c =
     (let n = (of_char c :: nat) in
      if 48 \<le> n \<and> n \<le> 57 then Some (n - 48)
      else if 97 \<le> n \<and> n \<le> 102 then Some (n - 87)
      else if 65 \<le> n \<and> n \<le> 70 then Some (n - 55)
      else None)"

fun hex_pairs :: "string \<Rightarrow> byte list" where
  "hex_pairs (a # b # rest) =
     of_nat (16 * the (hex_value a) + the (hex_value b)) # hex_pairs rest"
| "hex_pairs _ = []"

definition hexToBytes :: "string \<Rightarrow> byte list option" where
  "hexToBytes hex =
     (let clean = trim hex in
      if clean = [] \<or> (\<exists>c \<in> set clean. hex_value c = None) \<or> length clean mod 2 \<noteq> 0
      then None
      else Some (hex_pairs clean))"

section \<open>Device-local storage: the identity\<close>

text \<open>
  The keys of \<^verbatim>\<open>localStorage\<close> that the core reads and writes. A field is \<open>None\<close> when
  the key holds no item. The stamp pool is the parsed JSON array of strings under
  \<^verbatim>\<open>exchange_stamps\<close> (\<open>None\<close>: no item, or an item that is no JSON array).
\<close>

record vote_state =
  byToken :: "(string \<times> string) list"
  counts :: "(string \<times> int) list"

datatype poll_option = Label string | Option "string option" "string option"

record poll =
  poll_id :: string
  is_local :: bool
  title :: string
  question_html :: string
  poll_type :: string
  options :: "poll_option list"
  created_at :: string
  meta_created_local_id :: string
  meta_exchange_poll_id :: string
  meta_exchange_id :: string
  exchange_poll_id :: string
  exchange_id :: string

record storage =
  exchange_self_id :: "string option"
  exchange_signing_key :: "string option"
  exchange_stamps :: "string list option"
  exchange_persona_id :: "string option"
  breadpoll_tokens :: "(string \<times> string) list"
  breadpoll_local_polls :: "poll list"
  breadpoll_local_votes :: "(string \<times> vote_state) list"
  breadpoll_remote_last_choice :: "(string \<times> string) list"

record hmac_creds =
  self_id :: string
  signing_key :: string

text \<open>
  \<^verbatim>\<open>
    function getExchangeSelfIdOrNull() {
      const v = (localStorage.getItem(LS_EXCHANGE_SELF_ID) || "").trim();
      return v || null;
    }
  \<close>
  and the same for the signing key;
  \<^verbatim>\<open>getExchangeHmacCredsOrNull\<close> needs both.
\<close>

definition trimmed_item :: "string option \<Rightarrow> string option" where
  "trimmed_item item =
     (let v = trim (case item of None \<Rightarrow> [] | Some x \<Rightarrow> x)
      in if v = [] then None else Some v)"

definition getExchangeSelfIdOrNull :: "storage \<Rightarrow> string option" where
  "getExchangeSelfIdOrNull ls = trimmed_item (exchange_self_id ls)"

definition getExchangeSigningKeyOrNull :: "storage \<Rightarrow> string option" where
  "getExchangeSigningKeyOrNull ls = trimmed_item (exchange_signing_key ls)"

definition getExchangeHmacCredsOrNull :: "storage \<Rightarrow> hmac_creds option" where
  "getExchangeHmacCredsOrNull ls =
     (case (getExchangeSelfIdOrNull ls, getExchangeSigningKeyOrNull ls) of
        (Some sid, Some k) \<Rightarrow> Some \<lparr>self_id = sid, signing_key = k\<rparr>
      | _ \<Rightarrow> None)"

section \<open>Request signing\<close>

text \<open>
  The platform primitives of the signer: the SHA-256 digest and the HMAC-SHA256 signature of
  the UTF-8 encoding of a text (\<^verbatim>\<open>crypto.subtle.digest\<close>, \<^verbatim>\<open>crypto.subtle.sign\<close>
  under the imported raw key), and \<^verbatim>\<open>JSON.stringify\<close> on request bodies.
\<close>

record 'b platform =
  sha256_digest :: "string \<Rightarrow> byte list"
  hmac_sha256 :: "byte list \<Rightarrow> string \<Rightarrow> byte list"
  json_stringify :: "'b \<Rightarrow> string"

datatype error =
    MissingIdentity
  | BadSigningKey
  | NetworkFailure
  | BadJson

text \<open>
  \<^verbatim>\<open>makeNonceHex(byteLen)\<close> fills a \<^verbatim>\<open>Uint8Array(byteLen)\<close> with
  \<^verbatim>\<open>crypto.getRandomValues\<close>; \<open>rnd i\<close> is the random byte drawn for index \<open>i\<close>.
\<close>

definition makeNonceHex :: "(nat \<Rightarrow> byte) \<Rightarrow> nat \<Rightarrow> string" where
  "makeNonceHex rnd byteLen = bytesToHex (map rnd [0..<byteLen])"

text \<open>
  \<^verbatim>\<open>hmacSha256Hex(keyHex, message)\<close> throws
  \<^verbatim>\<open>"Signing key must be hex (even length)."\<close> when \<^verbatim>\<open>hexToBytes\<close> gives null.
\<close>

definition hmacSha256Hex :: "'b platform \<Rightarrow> string \<Rightarrow> string \<Rightarrow> error + string" where
  "hmacSha256Hex P keyHex message =
     (case hexToBytes keyHex of
        None \<Rightarrow> Inl BadSigningKey
      | Some keyBytes \<Rightarrow> Inr (bytesToHex (hmac_sha256 P keyBytes message)))"

record hmac_headers =
  X_Self_ID :: string
  X_Timestamp :: string
  X_Nonce :: string
  X_Signature :: string

text \<open>
  \<^verbatim>\<open>
    async function buildHmacHeaders(method, path, bodyObjOrNull) {
      const creds = getExchangeHmacCredsOrNull();
      if (!creds) throw new Error("Missing Exchange identity (self_id / signing_key).");
      const ts = String(Date.now()); // unix ms
      const nonce = makeNonceHex(12);
      const bodyText = bodyObjOrNull == null ? "" : JSON.stringify(bodyObjOrNull);
      const bodyHash = await sha256Hex(bodyText);
      const base = String(method).toUpperCase() + "\n" + String(path) + "\n" +
        ts + "\n" + nonce + "\n" + bodyHash;
      const sigHex = await hmacSha256Hex(creds.signing_key, base);
      return { "X-Self-ID": creds.self_id, "X-Timestamp": ts, "X-Nonce": nonce,
               "X-Signature": sigHex };
    }
  \<close>
  \<open>now\<close> is the value of \<^verbatim>\<open>Date.now()\<close> and \<open>rnd\<close> the random bytes of this call; a
  null or undefined body is \<open>None\<close>.
\<close>

definition signing_base :: "string \<Rightarrow> string \<Rightarrow> string \<Rightarrow> string \<Rightarrow> string \<Rightarrow> string" where
  "signing_base method path ts nonce bodyHash =
     toUpperCase method @ [CHR 0x0A] @ path @ [CHR 0x0A] @ ts @ [CHR 0x0A]
       @ nonce @ [CHR 0x0A] @ bodyHash"

definition buildHmacHeaders ::
  "'b platform \<Rightarrow> storage \<Rightarrow> nat \<Rightarrow> (nat \<Rightarrow> byte) \<Rightarrow> string \<Rightarrow> string \<Rightarrow> 'b option
     \<Rightarrow> error + hmac_headers" where
  "buildHmacHeaders P ls now rnd method path bodyObjOrNull =
     (case getExchangeHmacCredsOrNull ls of
        None \<Rightarrow> Inl MissingIdentity
      | Some creds \<Rightarrow>
          (let ts = String_nat now;
               nonce = makeNonceHex rnd 12;
               bodyText = (case bodyObjOrNull of None \<Rightarrow> [] | Some b \<Rightarrow> json_stringify P b);
               bodyHash = sha256Hex (sha256_digest P) bodyText;
               base = signing_base method path ts nonce bodyHash
           in case hmacSha256Hex P (signing_key creds) base of
                Inl e \<Rightarrow> Inl e
              | Inr sigHex \<Rightarrow>
                  Inr \<lparr>X_Self_ID = self_id creds, X_Timestamp = ts, X_Nonce = nonce,
                       X_Signature = sigHex\<rparr>))"

text \<open>
  \<^verbatim>\<open>new URL(u).pathname\<close> for an absolute URL \<^verbatim>\<open>scheme://host/path?query#fragment\<close>,
  and \<^verbatim>\<open>.replace(/\/$/, "")\<close>, which drops one trailing slash.
\<close>

fun after_scheme :: "string \<Rightarrow> string" where
  "after_scheme (a # b # c # rest) =
     (if a = CHR '':'' \<and> b = CHR ''/'' \<and> c = CHR ''/'' then rest
      else after_scheme (b # c # rest))"
| "after_scheme _ = []"

definition url_pathname :: "string \<Rightarrow> string" where
  "url_pathname u =
     (let p = takeWhile (\<lambda>c. c \<noteq> CHR ''?'' \<and> c \<noteq> CHR ''#'')
                (dropWhile (\<lambda>c. c \<noteq> CHR ''/'') (after_scheme u))
      in if p = [] then ''/'' else p)"

definition drop_trailing_slash :: "string \<Rightarrow> string" where
  "drop_trailing_slash s = (if s \<noteq> [] \<and> last s = CHR ''/'' then butlast s else s)"

definition EXCHANGE_API :: string where
  "EXCHANGE_API = ''https://exchange.breadstandard.com/api''"

text \<open>
  The request that \<^verbatim>\<open>fetch\<close> is given. \<open>req_path\<close> is the path below
  \<^verbatim>\<open>EXCHANGE_API\<close>; the credential headers are \<^verbatim>\<open>X-Stamp\<close> and \<^verbatim>\<open>X-Voter-Token\<close>.
\<close>

record 'b request =
  req_method :: string
  req_path :: string
  req_hmac :: "hmac_headers option"
  req_stamp :: "string option"
  req_voter_token :: "string option"
  req_body :: "'b option"

text \<open>
  The request built by \<^verbatim>\<open>exchangeFetchAuthed(path, opts)\<close>:
  \<^verbatim>\<open>
    const method = (opts?.method || "GET").toUpperCase();
    const bodyObj = (opts && "body" in opts) ? opts.body : null;
    const apiPrefix = new URL(EXCHANGE_API).pathname.replace(/\/$/, ""); // e.g. "/api"
    const signPath = `${apiPrefix}${path}`; // e.g. "/api/stamp"
    const h = await buildHmacHeaders(method, signPath, bodyObj);
    ...
    return fetch(`${EXCHANGE_API}${path}`, { method, headers,
      body: bodyObj == null ? undefined : JSON.stringify(bodyObj) });
  \<close>
\<close>

definition signPath :: "string \<Rightarrow> string" where
  "signPath path = drop_trailing_slash (url_pathname EXCHANGE_API) @ path"

definition exchangeFetchAuthed_request ::
  "'b platform \<Rightarrow> storage \<Rightarrow> nat \<Rightarrow> (nat \<Rightarrow> byte) \<Rightarrow> string \<Rightarrow> string option \<Rightarrow> 'b option
     \<Rightarrow> error + 'b request" where
  "exchangeFetchAuthed_request P ls now rnd path opts_method opts_body =
     (let method = toUpperCase (case opts_method of None \<Rightarrow> ''GET''
                                 | Some m \<Rightarrow> if m = [] then ''GET'' else m)
      in case buildHmacHeaders P ls now rnd method (signPath path) opts_body of
           Inl e \<Rightarrow> Inl e
         | Inr h \<Rightarrow>
             Inr \<lparr>req_method = method, req_path = path, req_hmac = Some h,
                  req_stamp = None, req_voter_token = None, req_body = opts_body\<rparr>)"

section \<open>Proof of work\<close>

text \<open>
  \<^verbatim>\<open>nonce++\<close> on a JavaScript number: exact below \<open>2^53\<close>; at \<open>2^53\<close> the sum
  \<open>2^53 + 1\<close> is not representable and rounds back to \<open>2^53\<close>, so the counter stays there.
\<close>

definition nonce_incr :: "nat \<Rightarrow> nat" where
  "nonce_incr n = (if n < 2 ^ 53 then n + 1 else n)"

text \<open>
  The loop of \<^verbatim>\<open>solvePowLite\<close>:
  \<^verbatim>\<open>
    let nonce = 0;
    while (true) {
      const candidate = String(nonce);
      const h = await sha256Hex(`${challenge}:${candidate}`);
      if (h.startsWith(targetPrefix)) return candidate;
      nonce++;
      if (nonce % 500 === 0) await new Promise(r => setTimeout(r, 0));
    }
  \<close>
  The loop has no bound, so the model is a partial function: \<open>None\<close> is "never returns".
  The periodic yield to the event loop changes no variable of the loop.
\<close>

partial_function (option) solve_loop ::
  "(string \<Rightarrow> byte list) \<Rightarrow> string \<Rightarrow> string \<Rightarrow> nat \<Rightarrow> string option" where
  "solve_loop digest challenge targetPrefix nonce =
     (let candidate = String_nat nonce;
          h = sha256Hex digest (challenge @ '':'' @ candidate)
      in if startsWith h targetPrefix then Some candidate
         else solve_loop digest challenge targetPrefix (nonce_incr nonce))"

text \<open>
  \<^verbatim>\<open>const targetPrefix = "0".repeat(Math.max(0, Number(difficulty) || 0));\<close>
  with an integer difficulty.
\<close>

definition solvePowLite :: "(string \<Rightarrow> byte list) \<Rightarrow> string \<Rightarrow> int \<Rightarrow> string option" where
  "solvePowLite digest challenge difficulty =
     solve_loop digest challenge (replicate (nat (max 0 difficulty)) CHR ''0'') 0"

text \<open>
  The predicate of the search: the hexadecimal hash of \<^verbatim>\<open>challenge + ":" + n\<close> has at least
  \<open>d\<close> leading zero characters.
\<close>

definition pow_accepts :: "(string \<Rightarrow> byte list) \<Rightarrow> string \<Rightarrow> int \<Rightarrow> nat \<Rightarrow> bool" where
  "pow_accepts digest challenge d n =
     (d \<le> int (leading_zeros (sha256Hex digest (challenge @ '':'' @ String_nat n))))"

text \<open>A digest used to run the solver on concrete inputs: one zero byte for the
  candidate \<^verbatim>\<open>"c:3"\<close>, the byte \<open>0xff\<close> for every other text.\<close>

definition toy_digest :: "string \<Rightarrow> byte list" where
  "toy_digest text = (if text = ''c:3'' then [0] else [255])"

section \<open>Concrete platform and identity for running the signer\<close>

text \<open>\<^verbatim>\<open>parts.join(sep)\<close>: the texts of a list, separated by \<open>sep\<close>.\<close>

definition join_with :: "string \<Rightarrow> string list \<Rightarrow> string" where
  "join_with sep xs =
     (case xs of [] \<Rightarrow> [] | x # rest \<Rightarrow> foldl (\<lambda>acc y. acc @ sep @ y) x rest)"

definition toy_platform :: "unit platform" where
  "toy_platform =
     \<lparr>sha256_digest = toy_digest,
      hmac_sha256 = (\<lambda>key msg. key @ [of_nat (length msg)]),
      json_stringify = (\<lambda>_. ''{}'')\<rparr>"

definition toy_identity :: storage where
  "toy_identity =
     \<lparr>exchange_self_id = Some ''me'', exchange_signing_key = Some '' 0aFF '',
      exchange_stamps = None, exchange_persona_id = None, breadpoll_tokens = [],
      breadpoll_local_polls = [], breadpoll_local_votes = [],
      breadpoll_remote_last_choice = []\<rparr>"

section \<open>JavaScript values\<close>

text \<open>
  Values parsed from JSON. Numbers are of an abstract type \<open>'n\<close>: no property below depends
  on how IEEE-754 doubles round. An object is the list of its own properties in insertion
  order.
\<close>

datatype 'n jsval =
    JUndef
  | JNull
  | JBool bool
  | JNum 'n
  | JStr string
  | JArr "'n jsval list"
  | JObj "(string \<times> 'n jsval) list"

section \<open>The stamp pool\<close>

text \<open>
  \<^verbatim>\<open>
    function getExchangeStampPool() {
      try {
        const raw = localStorage.getItem(LS_EXCHANGE_STAMPS);
        const arr = raw ? JSON.parse(raw) : [];
        return Array.isArray(arr) ? arr.filter(Boolean) : [];
      } catch { return []; }
    }
  \<close>
  For an array of strings, \<^verbatim>\<open>filter(Boolean)\<close> drops the empty strings.
\<close>

definition getExchangeStampPool :: "storage \<Rightarrow> string list" where
  "getExchangeStampPool ls =
     (case exchange_stamps ls of None \<Rightarrow> [] | Some arr \<Rightarrow> filter (\<lambda>s. s \<noteq> []) arr)"

text \<open>
  A JavaScript \<^verbatim>\<open>Set\<close> keeps its elements in insertion order; \<^verbatim>\<open>set.add(x)\<close> does
  nothing when \<open>x\<close> is already an element. \<^verbatim>\<open>new Set(cur)\<close> adds the elements of
  \<open>cur\<close> one by one, and \<^verbatim>\<open>Array.from(set)\<close> lists the elements.
\<close>

definition Set_add :: "'a list \<Rightarrow> 'a \<Rightarrow> 'a list" where
  "Set_add elems x = (if x \<in> set elems then elems else elems @ [x])"

definition new_Set :: "'a list \<Rightarrow> 'a list" where
  "new_Set xs = foldl Set_add [] xs"

text \<open>
  \<^verbatim>\<open>
    function addStampsToPool(newStamps) {
      const cur = getExchangeStampPool();
      const set = new Set(cur);
      for (const s of (newStamps || [])) {
        if (typeof s === "string" && s.startsWith("s_")) set.add(s);
      }
      localStorage.setItem(LS_EXCHANGE_STAMPS, JSON.stringify(Array.from(set)));
    }
  \<close>
\<close>

definition add_if_stamp :: "string list \<Rightarrow> 'n jsval \<Rightarrow> string list" where
  "add_if_stamp elems s =
     (case s of JStr t \<Rightarrow> if startsWith t ''s_'' then Set_add elems t else elems
              | _ \<Rightarrow> elems)"

definition addStampsToPool :: "'n jsval list \<Rightarrow> storage \<Rightarrow> storage" where
  "addStampsToPool newStamps ls =
     (let cur = getExchangeStampPool ls;
          elems = foldl add_if_stamp (new_Set cur) newStamps
      in ls\<lparr>exchange_stamps := Some elems\<rparr>)"

text \<open>
  The source declares \<^verbatim>\<open>pickOneStampOrNull\<close> twice in the same function scope. The first
  declaration:
  \<^verbatim>\<open>
    // Pick ONE stamp and REMOVE it from the pool immediately.
    // This prevents reuse of a consumed stamp (which causes 403 forever).
    function pickOneStampOrNull() {
      const pool = getExchangeStampPool();
      if (!pool.length) return null;
      const stamp = pool.shift(); // take the first stamp
      localStorage.setItem(LS_EXCHANGE_STAMPS, JSON.stringify(pool)); // persist remaining pool
      return stamp;
    }
  \<close>
  It is shadowed by the second declaration and never runs.
\<close>

definition pickOneStampOrNull_first :: "storage \<Rightarrow> string option \<times> storage" where
  "pickOneStampOrNull_first ls =
     (case getExchangeStampPool ls of
        [] \<Rightarrow> (None, ls)
      | stamp # pool \<Rightarrow> (Some stamp, ls\<lparr>exchange_stamps := Some pool\<rparr>))"

text \<open>
  The second declaration is the one every call reaches (a later function declaration of the
  same name replaces the earlier one):
  \<^verbatim>\<open>
    // Pick one stamp (random) for later use (voting, future)
    function pickOneStampOrNull() {
      const pool = getExchangeStampPool();
      if (!pool.length) return null;
      return pool[Math.floor(Math.random() * pool.length)];
    }
  \<close>
  \<open>u\<close> is the value of \<^verbatim>\<open>Math.random()\<close>. Reading an array outside its range gives
  \<^verbatim>\<open>undefined\<close>, here \<open>None\<close>. The storage is returned as it was: the function writes
  nothing.
\<close>

definition pickOneStampOrNull :: "rat \<Rightarrow> storage \<Rightarrow> string option \<times> storage" where
  "pickOneStampOrNull u ls =
     (let pool = getExchangeStampPool ls in
      if pool = [] then (None, ls)
      else (let i = \<lfloor>u * of_nat (length pool)\<rfloor>
            in if 0 \<le> i \<and> nat i < length pool then (Some (pool ! nat i), ls)
               else (None, ls)))"

text \<open>
  \<^verbatim>\<open>
    function clearExchangeStampPool() {
      localStorage.removeItem("exchange_stamps");
      localStorage.removeItem("exchange_persona_id");
    }
  \<close>
\<close>

definition clearExchangeStampPool :: "storage \<Rightarrow> storage" where
  "clearExchangeStampPool ls = ls\<lparr>exchange_stamps := None, exchange_persona_id := None\<rparr>"

text \<open>A storage with a stored identity and one pooled stamp.\<close>

definition one_stamp_storage :: storage where
  "one_stamp_storage = toy_identity\<lparr>exchange_stamps := Some [''s_a'']\<rparr>"

section \<open>Local votes\<close>

text \<open>
  \<^verbatim>\<open>LS_LOCAL_VOTES\<close> maps a poll id to
  \<^verbatim>\<open>{ byToken: {token: choice}, counts: {option: n} }\<close>. Objects are association lists:
  writing an existing key replaces its value in place, writing a new key appends it.
\<close>

definition empty_vote_state :: vote_state where
  "empty_vote_state = \<lparr>byToken = [], counts = []\<rparr>"

text \<open>
  \<^verbatim>\<open>
    (options || []).forEach(opt => {
      if (typeof st.counts[opt] !== "number") st.counts[opt] = 0;
    });
  \<close>
\<close>

definition init_counts :: "string list \<Rightarrow> (string \<times> int) list \<Rightarrow> (string \<times> int) list" where
  "init_counts opts cs =
     foldl (\<lambda>c opt. case map_of c opt of None \<Rightarrow> AList.update opt 0 c | Some _ \<Rightarrow> c) cs opts"


text \<open>
  \<^verbatim>\<open>
    function setLocalVote(pollId, token, choice, options) {
      const all = loadLocalVotesAll();
      const st = all[pollId] || { byToken: {}, counts: {} };
      ...
      all[pollId] = st;
      saveLocalVotesAll(all);
    }
  \<close>
\<close>

definition local_vote_state :: "storage \<Rightarrow> string \<Rightarrow> vote_state" where
  "local_vote_state ls pollId =
     (case map_of (breadpoll_local_votes ls) pollId of
        None \<Rightarrow> empty_vote_state | Some st \<Rightarrow> st)"















section \<open>Results normalization\<close>

text \<open>
  The operations on JavaScript numbers that \<^verbatim>\<open>normalizeResults\<close> uses: the number
  \<open>0\<close>, addition, the test for a falsy number (\<open>0\<close>, \<open>-0\<close>, \<open>NaN\<close>), and \<^verbatim>\<open>Number(v)\<close>
  for a value \<open>v\<close> that is not a number.
\<close>

record 'n number_ops =
  num_zero :: 'n
  num_add :: "'n \<Rightarrow> 'n \<Rightarrow> 'n"
  num_falsy :: "'n \<Rightarrow> bool"
  to_number :: "'n jsval \<Rightarrow> 'n"

datatype js_error = TypeError

definition bind_err :: "'e + 'a \<Rightarrow> ('a \<Rightarrow> 'e + 'b) \<Rightarrow> 'e + 'b" where
  "bind_err m f = (case m of Inl e \<Rightarrow> Inl e | Inr x \<Rightarrow> f x)"

text \<open>Truthiness, \<^verbatim>\<open>typeof v === "object"\<close> (true of \<^verbatim>\<open>null\<close> too), \<^verbatim>\<open>"number"\<close> and
  \<^verbatim>\<open>"boolean"\<close>.\<close>

fun truthy :: "'n number_ops \<Rightarrow> 'n jsval \<Rightarrow> bool" where
  "truthy ops JUndef = False"
| "truthy ops JNull = False"
| "truthy ops (JBool b) = b"
| "truthy ops (JNum n) = (\<not> num_falsy ops n)"
| "truthy ops (JStr s) = (s \<noteq> [])"
| "truthy ops (JArr xs) = True"
| "truthy ops (JObj ps) = True"

fun typeof_object :: "'n jsval \<Rightarrow> bool" where
  "typeof_object JNull = True"
| "typeof_object (JArr xs) = True"
| "typeof_object (JObj ps) = True"
| "typeof_object _ = False"

fun typeof_number :: "'n jsval \<Rightarrow> bool" where
  "typeof_number (JNum n) = True"
| "typeof_number _ = False"

fun typeof_boolean :: "'n jsval \<Rightarrow> bool" where
  "typeof_boolean (JBool b) = True"
| "typeof_boolean _ = False"

text \<open>
  Reading a property \<^verbatim>\<open>x.k\<close> throws a \<^verbatim>\<open>TypeError\<close> when \<open>x\<close> is \<^verbatim>\<open>undefined\<close> or
  \<^verbatim>\<open>null\<close>. The property names read by the normalizer are no members of arrays, strings,
  numbers or booleans, so on those the read gives \<^verbatim>\<open>undefined\<close>.
\<close>

fun get_prop :: "'n jsval \<Rightarrow> string \<Rightarrow> js_error + 'n jsval" where
  "get_prop JUndef k = Inl TypeError"
| "get_prop JNull k = Inl TypeError"
| "get_prop (JObj ps) k = Inr (case map_of ps k of None \<Rightarrow> JUndef | Some v \<Rightarrow> v)"
| "get_prop _ k = Inr JUndef"

text \<open>
  \<^verbatim>\<open>Object.values(v)\<close> of an object or array; the property list of \<open>JObj\<close> is taken in the
  order in which the engine enumerates the own properties.
\<close>

fun Object_values :: "'n jsval \<Rightarrow> js_error + 'n jsval list" where
  "Object_values JUndef = Inl TypeError"
| "Object_values JNull = Inl TypeError"
| "Object_values (JObj ps) = Inr (map snd ps)"
| "Object_values (JArr xs) = Inr xs"
| "Object_values _ = Inr []"

text \<open>\<^verbatim>\<open>Number(b)\<close>, and the step \<^verbatim>\<open>(a, b) => a + (Number(b) || 0)\<close> of the reduction.\<close>

definition Number :: "'n number_ops \<Rightarrow> 'n jsval \<Rightarrow> 'n" where
  "Number ops b = (case b of JNum n \<Rightarrow> n | _ \<Rightarrow> to_number ops b)"

definition add_value :: "'n number_ops \<Rightarrow> 'n \<Rightarrow> 'n jsval \<Rightarrow> 'n" where
  "add_value ops a b =
     num_add ops a (if num_falsy ops (Number ops b) then num_zero ops else Number ops b)"

definition sum_values :: "'n number_ops \<Rightarrow> 'n jsval list \<Rightarrow> 'n" where
  "sum_values ops vs = foldl (add_value ops) (num_zero ops) vs"

text \<open>
  The repeated conditions of the function. \<open>object_prop x k\<close> is
  \<^verbatim>\<open>x.k && typeof x.k === "object"\<close> with the value \<^verbatim>\<open>x.k\<close> when it holds;
  \<open>first_object\<close> is a chain \<^verbatim>\<open>(x && x.k && typeof x.k === "object") ? x.k : \<dots>\<close>, and
  \<open>first_typed\<close> a chain \<^verbatim>\<open>(typeof x.k === T) ? x.k : \<dots>\<close>; both give \<open>None\<close> when no
  condition of the chain holds. A later condition is evaluated only when the earlier ones
  fail.
\<close>

definition object_prop :: "'n number_ops \<Rightarrow> 'n jsval \<Rightarrow> string \<Rightarrow> js_error + 'n jsval option" where
  "object_prop ops x k =
     bind_err (get_prop x k)
       (\<lambda>v. Inr (if truthy ops v \<and> typeof_object v then Some v else None))"

fun first_object ::
  "'n number_ops \<Rightarrow> ('n jsval \<times> string) list \<Rightarrow> js_error + 'n jsval option" where
  "first_object ops [] = Inr None"
| "first_object ops ((x, k) # rest) =
     (if truthy ops x then
        bind_err (object_prop ops x k)
          (\<lambda>found. case found of Some v \<Rightarrow> Inr (Some v) | None \<Rightarrow> first_object ops rest)
      else first_object ops rest)"

fun first_typed ::
  "('n jsval \<Rightarrow> bool) \<Rightarrow> ('n jsval \<times> string) list \<Rightarrow> js_error + 'n jsval option" where
  "first_typed is_type [] = Inr None"
| "first_typed is_type ((x, k) # rest) =
     bind_err (get_prop x k)
       (\<lambda>v. if is_type v then Inr (Some v) else first_typed is_type rest)"

definition or_else :: "'a option \<Rightarrow> 'a \<Rightarrow> 'a" where
  "or_else found fallback = (case found of None \<Rightarrow> fallback | Some v \<Rightarrow> v)"

record 'n normalized =
  nr_totals :: "'n jsval"
  nr_people_voted :: "'n jsval"
  nr_represented_weight :: "'n jsval"
  nr_total_votes :: "'n jsval"
  nr_validated :: "'n jsval"
  nr_weights_used :: "'n jsval"
  nr_raw :: "'n jsval"

fun first_object_prop ::
  "'n number_ops \<Rightarrow> ('n jsval \<times> string) list \<Rightarrow> js_error + 'n jsval option" where
  "first_object_prop ops [] = Inr None"
| "first_object_prop ops ((x, k) # rest) =
     bind_err (object_prop ops x k)
       (\<lambda>found. case found of Some v \<Rightarrow> Inr (Some v) | None \<Rightarrow> first_object_prop ops rest)"

text \<open>
  \<^verbatim>\<open>
    function normalizeResults(obj) {
      const raw = obj || {};
      const r = raw.results && typeof raw.results === "object" ? raw.results : raw;
      const totals =
        (r && r.totals && typeof r.totals === "object") ? r.totals :
        (r && r.counts && typeof r.counts === "object") ? r.counts :
        (raw && raw.totals && typeof raw.totals === "object") ? raw.totals :
        (raw && raw.counts && typeof raw.counts === "object") ? raw.counts :
        {};
      const people_voted =
        (typeof r.people_voted === "number") ? r.people_voted :
        (typeof raw.people_voted === "number") ? raw.people_voted :
        null;
      const total_votes = ... (the same with total_votes)
      const weights_used =
        (r.weights_used && typeof r.weights_used === "object") ? r.weights_used :
        (raw.weights_used && typeof raw.weights_used === "object") ? raw.weights_used :
        null;
      const validated = ... (the same as people_voted, with "boolean")
      let represented_weight = null;
      if (weights_used && typeof weights_used.sum === "number") {
        represented_weight = weights_used.sum;
      } else if (typeof r.represented_people === "number") {
        represented_weight = r.represented_people;
      } else if (typeof raw.represented_people === "number") {
        represented_weight = raw.represented_people;
      } else {
        represented_weight = Object.values(totals).reduce((a, b) => a + (Number(b) || 0), 0);
      }
      return { totals, people_voted, represented_weight, total_votes, validated,
               weights_used, raw };
    }
  \<close>
\<close>

definition represented_weight_of ::
  "'n number_ops \<Rightarrow> 'n jsval \<Rightarrow> 'n jsval \<Rightarrow> 'n jsval \<Rightarrow> 'n jsval \<Rightarrow> js_error + 'n jsval" where
  "represented_weight_of ops weights_used r raw totals =
     bind_err (if truthy ops weights_used
               then first_typed typeof_number [(weights_used, ''sum'')] else Inr None)
       (\<lambda>from_weights. case from_weights of
          Some w \<Rightarrow> Inr w
        | None \<Rightarrow>
            bind_err (first_typed typeof_number
                        [(r, ''represented_people''), (raw, ''represented_people'')])
              (\<lambda>from_people. case from_people of
                 Some p \<Rightarrow> Inr p
               | None \<Rightarrow>
                   bind_err (Object_values totals)
                     (\<lambda>vals. Inr (JNum (sum_values ops vals)))))"

definition normalizeResults :: "'n number_ops \<Rightarrow> 'n jsval \<Rightarrow> js_error + 'n normalized" where
  "normalizeResults ops obj =
     (let raw = (if truthy ops obj then obj else JObj []) in
      bind_err (object_prop ops raw ''results'') (\<lambda>nested.
      let r = or_else nested raw in
      bind_err (first_object ops
                  [(r, ''totals''), (r, ''counts''), (raw, ''totals''), (raw, ''counts'')])
        (\<lambda>found_totals.
      let totals = or_else found_totals (JObj []) in
      bind_err (first_typed typeof_number [(r, ''people_voted''), (raw, ''people_voted'')])
        (\<lambda>found_people.
      let people_voted = or_else found_people JNull in
      bind_err (first_typed typeof_number [(r, ''total_votes''), (raw, ''total_votes'')])
        (\<lambda>found_votes.
      let total_votes = or_else found_votes JNull in
      bind_err (first_object_prop ops [(r, ''weights_used''), (raw, ''weights_used'')])
        (\<lambda>found_weights.
      let weights_used = or_else found_weights JNull in
      bind_err (first_typed typeof_boolean [(r, ''validated''), (raw, ''validated'')])
        (\<lambda>found_validated.
      let validated = or_else found_validated JNull in
      bind_err (represented_weight_of ops weights_used r raw totals)
        (\<lambda>represented_weight.
      Inr \<lparr>nr_totals = totals, nr_people_voted = people_voted,
           nr_represented_weight = represented_weight, nr_total_votes = total_votes,
           nr_validated = validated, nr_weights_used = weights_used,
           nr_raw = raw\<rparr>))))))))"

text \<open>
  The normalizer as the specification words it. \<open>field x k\<close> is the member \<open>k\<close> of an
  object and \<^verbatim>\<open>undefined\<close> for anything else; \<open>first_or\<close> takes the first candidate of
  the wanted kind, or the fallback.
\<close>

definition field :: "'n jsval \<Rightarrow> string \<Rightarrow> 'n jsval" where
  "field x k = (case x of JObj ps \<Rightarrow> (case map_of ps k of None \<Rightarrow> JUndef | Some v \<Rightarrow> v)
                | _ \<Rightarrow> JUndef)"

definition is_object :: "'n jsval \<Rightarrow> bool" where
  "is_object v = (case v of JObj ps \<Rightarrow> True | JArr xs \<Rightarrow> True | _ \<Rightarrow> False)"

definition first_or :: "('a \<Rightarrow> bool) \<Rightarrow> 'a list \<Rightarrow> 'a \<Rightarrow> 'a" where
  "first_or wanted candidates fallback = or_else (find wanted candidates) fallback"

definition values_of :: "'n jsval \<Rightarrow> 'n jsval list" where
  "values_of v = (case v of JObj ps \<Rightarrow> map snd ps | JArr xs \<Rightarrow> xs | _ \<Rightarrow> [])"

definition spec_raw :: "'n number_ops \<Rightarrow> 'n jsval \<Rightarrow> 'n jsval" where
  "spec_raw ops obj = (if truthy ops obj then obj else JObj [])"

definition spec_results :: "'n number_ops \<Rightarrow> 'n jsval \<Rightarrow> 'n jsval" where
  "spec_results ops obj =
     first_or is_object [field (spec_raw ops obj) ''results''] (spec_raw ops obj)"

definition spec_totals :: "'n number_ops \<Rightarrow> 'n jsval \<Rightarrow> 'n jsval" where
  "spec_totals ops obj =
     first_or is_object
       [field (spec_results ops obj) ''totals'', field (spec_results ops obj) ''counts'',
        field (spec_raw ops obj) ''totals'', field (spec_raw ops obj) ''counts'']
       (JObj [])"

definition spec_number :: "'n number_ops \<Rightarrow> 'n jsval \<Rightarrow> string \<Rightarrow> 'n jsval" where
  "spec_number ops obj k =
     first_or typeof_number [field (spec_results ops obj) k, field (spec_raw ops obj) k] JNull"

definition spec_weights_used :: "'n number_ops \<Rightarrow> 'n jsval \<Rightarrow> 'n jsval" where
  "spec_weights_used ops obj =
     first_or is_object
       [field (spec_results ops obj) ''weights_used'', field (spec_raw ops obj) ''weights_used'']
       JNull"

definition spec_represented_weight :: "'n number_ops \<Rightarrow> 'n jsval \<Rightarrow> 'n jsval" where
  "spec_represented_weight ops obj =
     first_or typeof_number
       [field (spec_weights_used ops obj) ''sum'',
        field (spec_results ops obj) ''represented_people'',
        field (spec_raw ops obj) ''represented_people'']
       (JNum (sum_values ops (values_of (spec_totals ops obj))))"

definition normalizeResults_spec :: "'n number_ops \<Rightarrow> 'n jsval \<Rightarrow> 'n normalized" where
  "normalizeResults_spec ops obj =
     \<lparr>nr_totals = spec_totals ops obj,
      nr_people_voted = spec_number ops obj ''people_voted'',
      nr_represented_weight = spec_represented_weight ops obj,
      nr_total_votes = spec_number ops obj ''total_votes'',
      nr_validated =
        first_or typeof_boolean
          [field (spec_results ops obj) ''validated'', field (spec_raw ops obj) ''validated'']
          JNull,
      nr_weights_used = spec_weights_used ops obj,
      nr_raw = spec_raw ops obj\<rparr>"

text \<open>Integer numbers, for running the normalizer: \<^verbatim>\<open>Number\<close> of a value that is no
  number is taken as \<open>0\<close>.\<close>

definition int_ops :: "int number_ops" where
  "int_ops = \<lparr>num_zero = 0, num_add = (+), num_falsy = (\<lambda>n. n = 0), to_number = (\<lambda>v. 0)\<rparr>"

text \<open>A payload nested under \<^verbatim>\<open>results\<close> with \<^verbatim>\<open>counts\<close> and no other field.\<close>

definition nested_counts_payload :: "int jsval" where
  "nested_counts_payload =
     JObj [(''poll_id'', JStr ''p1''),
           (''results'', JObj [(''counts'', JObj [(''1'', JNum 3), (''2'', JNum 4)])])]"

section \<open>The network boundary\<close>

text \<open>
  Request bodies: \<^verbatim>\<open>{}\<close> for the mint, \<^verbatim>\<open>{ option_id }\<close> for a vote, and the creation
  payload
  \<^verbatim>\<open>{ title, description, type: "single", options: [{label}],
     meta: { poll_type, question_html, created_local_id, asserted_at } }\<close>.
\<close>

record create_payload =
  cp_title :: string
  cp_description :: string
  cp_type :: string
  cp_options :: "string list"
  cp_meta_poll_type :: string
  cp_meta_question_html :: string
  cp_meta_created_local_id :: string
  cp_meta_asserted_at :: nat

datatype body =
    StampBody
  | VoteBody string
  | CreateBody create_payload

text \<open>
  What the client reads of a JSON response body: \<^verbatim>\<open>polls\<close> when it is an array,
  \<^verbatim>\<open>poll\<close>, \<^verbatim>\<open>issued\<close> when it is an array, \<^verbatim>\<open>persona_id\<close>, \<^verbatim>\<open>voter_token\<close> and
  \<^verbatim>\<open>error\<close>. A response is a network failure (the \<^verbatim>\<open>fetch\<close> promise rejects) or a
  status with a body, which is \<open>None\<close> when the text is no JSON.
\<close>

record 'n response_json =
  rj_polls :: "poll list option"
  rj_poll :: "poll option"
  rj_issued :: "'n jsval list option"
  rj_persona_id :: "string option"
  rj_voter_token :: "string option"
  rj_error :: "string option"

datatype 'n response = NetworkError | Response nat "'n response_json option"

definition resp_ok :: "nat \<Rightarrow> bool" where
  "resp_ok status = (200 \<le> status \<and> status \<le> 299)"

text \<open>
  The environment of the client: the platform primitives, the clock, the random sources and
  the string collation, each read at a tick that advances with every read, whether the page
  has the element \<^verbatim>\<open>voteButtons\<close>, and the remote Exchange as a state machine answering
  one request at a time.
\<close>

record ('n, 's) env =
  platform :: "body platform"
  date_now :: "nat \<Rightarrow> nat"
  random_values :: "nat \<Rightarrow> nat \<Rightarrow> byte"
  math_random :: "nat \<Rightarrow> rat"
  make_id :: "nat \<Rightarrow> string"
  locale_compare :: "string \<Rightarrow> string \<Rightarrow> int"
  vote_buttons :: bool
  respond :: "'s \<Rightarrow> body request \<Rightarrow> 'n response \<times> 's"

text \<open>
  The world: the device-local storage, the state of the remote Exchange, the requests sent
  so far and the tick.
\<close>

record 's world =
  lstore :: storage
  remote :: 's
  sent :: "body request list"
  tick :: nat

definition fetch ::
  "('n, 's) env \<Rightarrow> body request \<Rightarrow> 's world
     \<Rightarrow> (error + nat \<times> 'n response_json option) \<times> 's world" where
  "fetch E rq w =
     (case respond E (remote w) rq of
        (resp, s') \<Rightarrow>
          (let w' = w\<lparr>remote := s', sent := sent w @ [rq]\<rparr>
           in case resp of
                NetworkError \<Rightarrow> (Inl NetworkFailure, w')
              | Response status data \<Rightarrow> (Inr (status, data), w')))"

definition plain_request :: "string \<Rightarrow> string \<Rightarrow> body request" where
  "plain_request method path =
     \<lparr>req_method = method, req_path = path, req_hmac = None, req_stamp = None,
      req_voter_token = None, req_body = None\<rparr>"

text \<open>\<^verbatim>\<open>exchangeFetchAuthed(path, { method, body })\<close>: sign, then fetch.\<close>

definition exchangeFetchAuthed ::
  "('n, 's) env \<Rightarrow> string \<Rightarrow> string \<Rightarrow> body option \<Rightarrow> 's world
     \<Rightarrow> (error + nat \<times> 'n response_json option) \<times> 's world" where
  "exchangeFetchAuthed E path method bodyObj w =
     (let w1 = w\<lparr>tick := tick w + 1\<rparr> in
      case exchangeFetchAuthed_request (platform E) (lstore w) (date_now E (tick w))
             (random_values E (tick w)) path (Some method) bodyObj of
        Inl e \<Rightarrow> (Inl e, w1)
      | Inr rq \<Rightarrow> fetch E rq w1)"

text \<open>
  \<^verbatim>\<open>
    async function fetchStampsFromExchange() {
      const creds = getExchangeHmacCredsOrNull();
      if (!creds) throw new Error("Missing Exchange identity (self_id / signing_key).");
      const r = await exchangeFetchAuthed("/stamp", { method: "POST", body: {} });
      const data = await r.json();
      if (data && data.persona_id) localStorage.setItem(LS_EXCHANGE_PERSONA_ID, data.persona_id);
      if (data && Array.isArray(data.issued) && data.issued.length) addStampsToPool(data.issued);
      ... (statistics for the settings page, under keys nothing else reads)
      return data;
    }
  \<close>
\<close>

definition store_mint_response :: "'n response_json \<Rightarrow> storage \<Rightarrow> storage" where
  "store_mint_response data s =
     (let s1 = (case rj_persona_id data of
                  None \<Rightarrow> s
                | Some p \<Rightarrow> if p \<noteq> [] then s\<lparr>exchange_persona_id := Some p\<rparr> else s)
      in case rj_issued data of
           None \<Rightarrow> s1
         | Some issued \<Rightarrow> if issued \<noteq> [] then addStampsToPool issued s1 else s1)"

definition fetchStampsFromExchange ::
  "('n, 's) env \<Rightarrow> 's world \<Rightarrow> (error + unit) \<times> 's world" where
  "fetchStampsFromExchange E w =
     (case getExchangeHmacCredsOrNull (lstore w) of
        None \<Rightarrow> (Inl MissingIdentity, w)
      | Some creds \<Rightarrow>
          (case exchangeFetchAuthed E ''/stamp'' ''POST'' (Some StampBody) w of
             (Inl e, w1) \<Rightarrow> (Inl e, w1)
           | (Inr (status, None), w1) \<Rightarrow> (Inl BadJson, w1)
           | (Inr (status, Some data), w1) \<Rightarrow>
               (Inr (), w1\<lparr>lstore := store_mint_response data (lstore w1)\<rparr>)))"

text \<open>
  \<^verbatim>\<open>
    async function getOrFetchOneStampOrNull() {
      const pool = getExchangeStampPool();
      if (pool.length) return pickOneStampOrNull();
      const creds = getExchangeHmacCredsOrNull();
      if (!creds) return null;
      try {
        await fetchStampsFromExchange();
        return pickOneStampOrNull();
      } catch (e) { return null; }
    }
  \<close>
\<close>

definition pick_in_world :: "('n, 's) env \<Rightarrow> 's world \<Rightarrow> string option \<times> 's world" where
  "pick_in_world E w =
     (case pickOneStampOrNull (math_random E (tick w)) (lstore w) of
        (stamp, s) \<Rightarrow> (stamp, w\<lparr>lstore := s, tick := tick w + 1\<rparr>))"

definition getOrFetchOneStampOrNull ::
  "('n, 's) env \<Rightarrow> 's world \<Rightarrow> string option \<times> 's world" where
  "getOrFetchOneStampOrNull E w =
     (if getExchangeStampPool (lstore w) \<noteq> [] then pick_in_world E w
      else case getExchangeHmacCredsOrNull (lstore w) of
             None \<Rightarrow> (None, w)
           | Some creds \<Rightarrow>
               (case fetchStampsFromExchange E w of
                  (Inl e, w1) \<Rightarrow> (None, w1)
                | (Inr u, w1) \<Rightarrow> pick_in_world E w1))"

section \<open>Voter tokens and the remote vote\<close>

text \<open>
  \<^verbatim>\<open>getToken(pollId)\<close> is \<^verbatim>\<open>t[pollId] || null\<close>; \<^verbatim>\<open>setToken\<close> and
  \<^verbatim>\<open>setRemoteLastChoice\<close> write one entry of their map.
\<close>

definition getToken :: "storage \<Rightarrow> string \<Rightarrow> string option" where
  "getToken s pollId =
     (case map_of (breadpoll_tokens s) pollId of
        None \<Rightarrow> None
      | Some t \<Rightarrow> if t \<noteq> [] then Some t else None)"

definition setToken :: "string \<Rightarrow> string \<Rightarrow> storage \<Rightarrow> storage" where
  "setToken pollId token s =
     s\<lparr>breadpoll_tokens := AList.update pollId token (breadpoll_tokens s)\<rparr>"

definition setRemoteLastChoice :: "string \<Rightarrow> string \<Rightarrow> storage \<Rightarrow> storage" where
  "setRemoteLastChoice pollId label s =
     s\<lparr>breadpoll_remote_last_choice :=
         AList.update pollId label (breadpoll_remote_last_choice s)\<rparr>"

text \<open>
  \<^verbatim>\<open>
    const pollId = poll?.meta?.exchange_poll_id || poll?.meta?.exchange_id ||
      poll?.exchange_poll_id || poll?.exchange_id || poll?.id;
  \<close>
  An absent field is the empty string.
\<close>

definition first_truthy :: "string list \<Rightarrow> string" where
  "first_truthy xs = (case filter (\<lambda>x. x \<noteq> []) xs of [] \<Rightarrow> [] | x # rest \<Rightarrow> x)"

definition exchange_poll_id_of :: "poll \<Rightarrow> string" where
  "exchange_poll_id_of p =
     first_truthy [meta_exchange_poll_id p, meta_exchange_id p, exchange_poll_id p,
                   exchange_id p, poll_id p]"

text \<open>
  \<^verbatim>\<open>
    const idx = opts.findIndex(o => (o?.label ?? o) === choiceLabel);
    if (idx < 0) return { ok: false, error: "bad option" };
    const optObj = opts[idx];
    const option_id = (optObj && typeof optObj === "object" && optObj.id != null)
      ? String(optObj.id) : String(idx + 1);
  \<close>
  An option is a bare label or an object with an optional id and an optional label.
\<close>

definition option_label :: "poll_option \<Rightarrow> string option" where
  "option_label opt = (case opt of Label l \<Rightarrow> Some l | Option oid l \<Rightarrow> l)"

fun findIndex :: "('a \<Rightarrow> bool) \<Rightarrow> 'a list \<Rightarrow> nat option" where
  "findIndex P [] = None"
| "findIndex P (x # xs) =
     (if P x then Some 0 else (case findIndex P xs of None \<Rightarrow> None | Some i \<Rightarrow> Some (i + 1)))"

definition option_id_at :: "poll_option list \<Rightarrow> nat \<Rightarrow> string" where
  "option_id_at opts idx =
     (case opts ! idx of
        Option (Some oid) l \<Rightarrow> oid
      | _ \<Rightarrow> String_nat (idx + 1))"

datatype vote_outcome =
    VoteOk
  | LocalPollIdNotValid
  | MissingPollId
  | BadOption
  | NoStamp
  | VoteRejected nat

definition vote_request :: "string \<Rightarrow> string \<Rightarrow> string option \<Rightarrow> string option \<Rightarrow> body request" where
  "vote_request pollId option_id stamp voter_token =
     \<lparr>req_method = ''POST'', req_path = ''/polls/'' @ pollId @ ''/vote'', req_hmac = None,
      req_stamp = stamp, req_voter_token = voter_token,
      req_body = Some (VoteBody option_id)\<rparr>"

text \<open>
  After an accepted vote:
  \<^verbatim>\<open>
    if (data?.voter_token) setToken(pollId, data.voter_token);
    setRemoteLastChoice(pollId, choiceLabel);
  \<close>
\<close>

definition record_accepted_vote ::
  "'n response_json option \<Rightarrow> string \<Rightarrow> string \<Rightarrow> storage \<Rightarrow> storage" where
  "record_accepted_vote data pollId choiceLabel s =
     setRemoteLastChoice pollId choiceLabel
       (case data of
          None \<Rightarrow> s
        | Some d \<Rightarrow>
            (case rj_voter_token d of
               None \<Rightarrow> s
             | Some t \<Rightarrow> if t \<noteq> [] then setToken pollId t s else s))"

text \<open>
  The block that runs when a vote sent with a stamp is answered 403:
  \<^verbatim>\<open>
    if (!voter_token && r.status === 403) {
      try { clearExchangeStampPool(); } catch {}
      try {
        const stamp2 = await getOrFetchOneStampOrNull();
        if (stamp2) {
          const headers2 = { "Content-Type": "application/json", "X-Stamp": stamp2 };
          const r2 = await fetch(`${EXCHANGE_API}/polls/${pollId}/vote`,
            { method: "POST", headers: headers2, body: JSON.stringify(payload) });
          const raw2 = await r2.text();
          if (r2.ok) {
            let data2 = null;
            try { data2 = JSON.parse(raw2); } catch {}
            if (data2?.voter_token) setToken(pollId, data2.voter_token);
            setRemoteLastChoice(pollId, choiceLabel);
            return { ok: true };
          }
        }
      } catch (_) { /* fall through to normal failure below */ }
    }
  \<close>
  The result is \<open>True\<close> when the block returns \<^verbatim>\<open>{ ok: true }\<close>, and \<open>False\<close> when control
  falls through to the failure report.
\<close>

definition retry_after_403 ::
  "('n, 's) env \<Rightarrow> string \<Rightarrow> string \<Rightarrow> string \<Rightarrow> 's world \<Rightarrow> bool \<times> 's world" where
  "retry_after_403 E pollId option_id choiceLabel w =
     (let w1 = w\<lparr>lstore := clearExchangeStampPool (lstore w)\<rparr> in
      case getOrFetchOneStampOrNull E w1 of
        (None, w2) \<Rightarrow> (False, w2)
      | (Some stamp2, w2) \<Rightarrow>
          (if stamp2 = [] then (False, w2)
           else case fetch E (vote_request pollId option_id (Some stamp2) None) w2 of
                  (Inl e, w3) \<Rightarrow> (False, w3)
                | (Inr (status2, data2), w3) \<Rightarrow>
                    (if resp_ok status2
                     then (True, w3\<lparr>lstore :=
                             record_accepted_vote data2 pollId choiceLabel (lstore w3)\<rparr>)
                     else (False, w3))))"

text \<open>
  \<^verbatim>\<open>castExchangeVoteByLabel(poll, choiceLabel, statusEl)\<close>, from the choice of the
  credential on:
  \<^verbatim>\<open>
    if (voter_token) { headers["X-Voter-Token"] = String(voter_token); }
    else {
      stamp = await getOrFetchOneStampOrNull();
      if (!stamp) return { ok: false, error: "no stamp" };
      headers["X-Stamp"] = stamp;
    }
    const r = await fetch(`${EXCHANGE_API}/polls/${pollId}/vote`, { method: "POST", headers,
      body: JSON.stringify(payload) });
    const rawBody = await r.text();
    if (!r.ok) {
      (the block above)
      if (statusEl) statusEl.textContent = `Vote failed (${r.status}).`;
      return { ok: false, error: rawBody || String(r.status) };
    }
    let data = null;
    try { data = JSON.parse(rawBody); } catch { data = null; }
    if (data?.voter_token) setToken(pollId, data.voter_token);
    setRemoteLastChoice(pollId, choiceLabel);
    return { ok: true };
  \<close>
  A rejected \<^verbatim>\<open>fetch\<close> of the first vote is not caught here: it is the \<open>Inl\<close> result.
\<close>

definition send_vote ::
  "('n, 's) env \<Rightarrow> string \<Rightarrow> string \<Rightarrow> string \<Rightarrow> string option \<Rightarrow> string option \<Rightarrow> 's world
     \<Rightarrow> (error + vote_outcome) \<times> 's world" where
  "send_vote E pollId option_id choiceLabel stamp voter_token w =
     (case fetch E (vote_request pollId option_id stamp voter_token) w of
        (Inl e, w1) \<Rightarrow> (Inl e, w1)
      | (Inr (status, data), w1) \<Rightarrow>
          (if \<not> resp_ok status then
             (if voter_token = None \<and> status = 403 then
                (case retry_after_403 E pollId option_id choiceLabel w1 of
                   (True, w2) \<Rightarrow> (Inr VoteOk, w2)
                 | (False, w2) \<Rightarrow> (Inr (VoteRejected status), w2))
              else (Inr (VoteRejected status), w1))
           else (Inr VoteOk,
                 w1\<lparr>lstore := record_accepted_vote data pollId choiceLabel (lstore w1)\<rparr>)))"

definition castExchangeVoteByLabel ::
  "('n, 's) env \<Rightarrow> poll \<Rightarrow> string \<Rightarrow> 's world \<Rightarrow> (error + vote_outcome) \<times> 's world" where
  "castExchangeVoteByLabel E p choiceLabel w =
     (let pollId = exchange_poll_id_of p in
      if startsWith pollId ''local_'' then (Inr LocalPollIdNotValid, w)
      else if pollId = [] then (Inr MissingPollId, w)
      else
        (let voter_token = getToken (lstore w) pollId in
         case findIndex (\<lambda>opt. option_label opt = Some choiceLabel) (options p) of
           None \<Rightarrow> (Inr BadOption, w)
         | Some idx \<Rightarrow>
             (let option_id = option_id_at (options p) idx in
              case voter_token of
                Some tok \<Rightarrow> send_vote E pollId option_id choiceLabel None (Some tok) w
              | None \<Rightarrow>
                  (case getOrFetchOneStampOrNull E w of
                     (None, w1) \<Rightarrow> (Inr NoStamp, w1)
                   | (Some stamp, w1) \<Rightarrow>
                       (if stamp = [] then (Inr NoStamp, w1)
                        else send_vote E pollId option_id choiceLabel (Some stamp) None w1)))))"

section \<open>Counting requests\<close>

text \<open>A vote request carries the body \<^verbatim>\<open>{ option_id }\<close>; a mint request goes to
  \<^verbatim>\<open>/stamp\<close>. \<open>new_requests w w'\<close> are the requests sent between two worlds.\<close>

definition is_vote :: "body request \<Rightarrow> bool" where
  "is_vote rq = (case req_body rq of Some (VoteBody oid) \<Rightarrow> True | _ \<Rightarrow> False)"

definition is_mint :: "body request \<Rightarrow> bool" where
  "is_mint rq = (req_path rq = ''/stamp'')"

definition mint_only :: "body request list \<Rightarrow> bool" where
  "mint_only new \<longleftrightarrow> new = [] \<or> (\<exists>rq. new = [rq] \<and> is_mint rq \<and> \<not> is_vote rq)"

definition new_requests :: "'s world \<Rightarrow> 's world \<Rightarrow> body request list" where
  "new_requests w w' = drop (length (sent w)) (sent w')"

section \<open>Concrete environments for running the vote client\<close>

definition toy_body_platform :: "body platform" where
  "toy_body_platform =
     \<lparr>sha256_digest = toy_digest,
      hmac_sha256 = (\<lambda>key msg. key @ [of_nat (length msg)]),
      json_stringify = (\<lambda>b. ''{}'')\<rparr>"

text \<open>Comparison of strings by the code points of their characters, as
  \<^verbatim>\<open>localeCompare\<close> orders timestamps of one format.\<close>

fun code_point_compare :: "string \<Rightarrow> string \<Rightarrow> int" where
  "code_point_compare [] [] = 0"
| "code_point_compare [] (y # ys) = -1"
| "code_point_compare (x # xs) [] = 1"
| "code_point_compare (x # xs) (y # ys) =
     (if (of_char x :: nat) < of_char y then -1
      else if (of_char y :: nat) < of_char x then 1
      else code_point_compare xs ys)"

definition empty_json :: "int response_json" where
  "empty_json =
     \<lparr>rj_polls = None, rj_poll = None, rj_issued = None, rj_persona_id = None,
      rj_voter_token = None, rj_error = None\<rparr>"

text \<open>An Exchange that answers every vote with 403 and every mint with an empty
  \<^verbatim>\<open>issued\<close> list, and one that answers every vote with 401 and the error
  \<^verbatim>\<open>"invalid X-Voter-Token"\<close>.\<close>

definition answers_403 :: "unit \<Rightarrow> body request \<Rightarrow> int response \<times> unit" where
  "answers_403 s rq =
     (if req_path rq = ''/stamp'' then (Response 200 (Some (empty_json\<lparr>rj_issued := Some []\<rparr>)), s)
      else (Response 403 None, s))"

definition answers_invalid_token :: "unit \<Rightarrow> body request \<Rightarrow> int response \<times> unit" where
  "answers_invalid_token s rq =
     (Response 401 (Some (empty_json\<lparr>rj_error := Some ''invalid X-Voter-Token''\<rparr>)), s)"

definition toy_env :: "('s \<Rightarrow> body request \<Rightarrow> int response \<times> 's) \<Rightarrow> (int, 's) env" where
  "toy_env server =
     \<lparr>platform = toy_body_platform,
      date_now = (\<lambda>t. 1700000000000 + t),
      random_values = (\<lambda>t i. of_nat (t + i)),
      math_random = (\<lambda>t. 0),
      make_id = (\<lambda>t. String_nat t),
      locale_compare = code_point_compare,
      vote_buttons = True,
      respond = server\<rparr>"

definition lunch_remote :: poll where
  "lunch_remote =
     \<lparr>poll_id = ''p1'', is_local = False, title = ''Lunch?'', question_html = [],
      poll_type = ''YES_NO'',
      options = [Option (Some ''1'') (Some ''Pizza''), Option (Some ''2'') (Some ''Tacos'')],
      created_at = ''2025-01-01T00:00:00Z'', meta_created_local_id = ''local_1'',
      meta_exchange_poll_id = [], meta_exchange_id = [], exchange_poll_id = [],
      exchange_id = []\<rparr>"

definition stamp_world :: "unit world" where
  "stamp_world = \<lparr>lstore = one_stamp_storage, remote = (), sent = [], tick = 0\<rparr>"

definition token_world :: "unit world" where
  "token_world =
     \<lparr>lstore = toy_identity\<lparr>breadpoll_tokens := [(''p1'', ''vt_old'')]\<rparr>,
      remote = (), sent = [], tick = 0\<rparr>"

text \<open>An Exchange that answers every vote with 403 and every mint with the stamp
  \<^verbatim>\<open>"s_new"\<close>.\<close>

definition answers_403_reissues :: "unit \<Rightarrow> body request \<Rightarrow> int response \<times> unit" where
  "answers_403_reissues s rq =
     (if req_path rq = ''/stamp''
      then (Response 200 (Some (empty_json\<lparr>rj_issued := Some [JStr ''s_new'']\<rparr>)), s)
      else (Response 403 None, s))"

section \<open>Assertion of a local draft\<close>

text \<open>
  \<^verbatim>\<open>
    function ensureLocalToken(pollId) {
      let tok = getToken(pollId);
      if (!tok) { tok = "localtok_" + makeId(); setToken(pollId, tok); }
      return tok;
    }
    function getLocalSelectedChoice(poll) {
      if (!poll?.id) return null;
      const token = ensureLocalToken(poll.id);
      const all = loadLocalVotesAll();
      const st = all[poll.id];
      const choice = st?.byToken?.[token];
      return choice ? String(choice) : null;
    }
  \<close>
  \<open>make_id\<close> is the fresh identifier of \<^verbatim>\<open>makeId()\<close>.
\<close>

definition ensureLocalToken :: "('n, 's) env \<Rightarrow> string \<Rightarrow> 's world \<Rightarrow> string \<times> 's world" where
  "ensureLocalToken E pollId w =
     (case getToken (lstore w) pollId of
        Some tok \<Rightarrow> (tok, w)
      | None \<Rightarrow>
          (let tok = ''localtok_'' @ make_id E (tick w)
           in (tok, w\<lparr>lstore := setToken pollId tok (lstore w), tick := tick w + 1\<rparr>)))"

definition getLocalSelectedChoice ::
  "('n, 's) env \<Rightarrow> poll \<Rightarrow> 's world \<Rightarrow> string option \<times> 's world" where
  "getLocalSelectedChoice E p w =
     (if poll_id p = [] then (None, w)
      else case ensureLocalToken E (poll_id p) w of
             (token, w1) \<Rightarrow>
               (case map_of (breadpoll_local_votes (lstore w1)) (poll_id p) of
                  None \<Rightarrow> (None, w1)
                | Some st \<Rightarrow>
                    (case map_of (byToken st) token of
                       None \<Rightarrow> (None, w1)
                     | Some choice \<Rightarrow> (if choice \<noteq> [] then Some choice else None, w1))))"

text \<open>
  \<^verbatim>\<open>
    function purgeLocalPollState(localPollId) {
      const id = String(localPollId || "");
      if (!id) return;
      try { removeLocalPoll(id); } catch {}           // polls.filter(p => p.id !== id)
      try { ... delete allVotes[id]; saveLocalVotesAll(allVotes); } catch {}
      try { ... delete t[id]; localStorage.setItem(LS_TOKENS, JSON.stringify(t)); } catch {}
    }
  \<close>
\<close>

definition purgeLocalPollState :: "string \<Rightarrow> storage \<Rightarrow> storage" where
  "purgeLocalPollState localPollId s =
     (if localPollId = [] then s
      else s\<lparr>breadpoll_local_polls :=
                 filter (\<lambda>p. poll_id p \<noteq> localPollId) (breadpoll_local_polls s),
              breadpoll_local_votes := AList.delete localPollId (breadpoll_local_votes s),
              breadpoll_tokens := AList.delete localPollId (breadpoll_tokens s)\<rparr>)"

text \<open>An option that is not a string reads as \<^verbatim>\<open>"[object Object]"\<close> where the code
  uses it as a string.\<close>

definition option_text :: "poll_option \<Rightarrow> string" where
  "option_text opt = (case opt of Label l \<Rightarrow> l | Option oid l \<Rightarrow> ''[object Object]'')"

text \<open>
  The display steps that end a successful assertion.
  \<^verbatim>\<open>await refreshPolls()\<close> reads \<^verbatim>\<open>GET /polls\<close> once and catches its own failures.
  \<^verbatim>\<open>await openPoll({ id, is_local: false })\<close>:
  \<^verbatim>\<open>
    const pollId = p?.id;
    if (!pollId) return;
    const isLocal = !!p?.is_local || String(pollId).startsWith("local_");
    ...
    const vb = document.getElementById("voteButtons");
    let full = p;
    if (isLocal) { full = getLocalPoll(pollId) || p; full.is_local = true; }
    else { full = { ...p, id: pollId, is_local: false }; }
    const isLocalNow = !!full?.is_local || String(full?.id).startsWith("local_");
    if (vb) {
      const selected = isLocalNow ? getLocalSelectedChoice(full) : getRemoteLastChoice(pollId);
      renderVoteButtons(vb, full, selected);
    }
    if (isLocalNow) {
      const res = buildLocalResults(full);   // getLocalVoteState(poll.id, poll.options || [])
      ...
    } else {
      try { const r = await fetch(`.../api/polls`, { method: "GET" }); ... } catch (e) { ... }
      (the stream)
    }
  \<close>
  with
  \<^verbatim>\<open>
    function getLocalVoteState(pollId, options) {
      const all = loadLocalVotesAll();
      const st = all[pollId] || { byToken: {}, counts: {} };
      const counts = st.counts || {};
      (options || []).forEach(opt => { if (typeof counts[opt] !== "number") counts[opt] = 0; });
      st.counts = counts;
      all[pollId] = st;
      saveLocalVotesAll(all);
      return st;
    }
  \<close>
  For an id that does not begin with \<^verbatim>\<open>"local_"\<close> the call reads \<^verbatim>\<open>GET /polls\<close> once; for
  an id that does, it takes the local branch, which sends nothing, stores a token for the id
  when the page has the vote buttons and none is stored, and saves the vote state of the id
  with a count for every option of the local poll of that id (none when there is no such
  poll). The rendering and the stream are left out.
\<close>

definition refreshPolls :: "('n, 's) env \<Rightarrow> 's world \<Rightarrow> 's world" where
  "refreshPolls E w = snd (fetch E (plain_request ''GET'' ''/polls'') w)"

definition getLocalVoteState :: "string \<Rightarrow> string list \<Rightarrow> storage \<Rightarrow> vote_state \<times> storage" where
  "getLocalVoteState pollId opts ls =
     (let st0 = local_vote_state ls pollId;
          st = st0\<lparr>counts := init_counts opts (counts st0)\<rparr>
      in (st, ls\<lparr>breadpoll_local_votes := AList.update pollId st (breadpoll_local_votes ls)\<rparr>))"

definition getLocalPoll :: "storage \<Rightarrow> string \<Rightarrow> poll option" where
  "getLocalPoll ls pid = find (\<lambda>p. poll_id p = pid) (breadpoll_local_polls ls)"

definition poll_shell :: "string \<Rightarrow> poll" where
  "poll_shell pid =
     \<lparr>poll_id = pid, is_local = False, title = [], question_html = [], poll_type = [],
      options = [], created_at = [], meta_created_local_id = [],
      meta_exchange_poll_id = [], meta_exchange_id = [], exchange_poll_id = [],
      exchange_id = []\<rparr>"

definition openPoll_remote :: "('n, 's) env \<Rightarrow> string \<Rightarrow> 's world \<Rightarrow> 's world" where
  "openPoll_remote E target w =
     (if target = [] then w
      else if startsWith target ''local_'' then
        (let full = (case getLocalPoll (lstore w) target of
                       None \<Rightarrow> poll_shell target
                     | Some p \<Rightarrow> p\<lparr>is_local := True\<rparr>);
             w1 = (if vote_buttons E then snd (getLocalSelectedChoice E full w) else w)
         in w1\<lparr>lstore := snd (getLocalVoteState (poll_id full) (map option_text (options full))
                                 (lstore w1))\<rparr>)
      else snd (fetch E (plain_request ''GET'' ''/polls'') w))"

text \<open>
  \<^verbatim>\<open>matches.sort((a, b) =>
      String(b?.created_at || "").localeCompare(String(a?.created_at || "")))\<close>:
  a stable sort with the comparator, here by insertion.
\<close>

fun insert_by :: "('a \<Rightarrow> 'a \<Rightarrow> int) \<Rightarrow> 'a \<Rightarrow> 'a list \<Rightarrow> 'a list" where
  "insert_by cmp x [] = [x]"
| "insert_by cmp x (y # ys) = (if cmp x y \<le> 0 then x # y # ys else y # insert_by cmp x ys)"

definition sort_by :: "('a \<Rightarrow> 'a \<Rightarrow> int) \<Rightarrow> 'a list \<Rightarrow> 'a list" where
  "sort_by cmp xs = foldr (insert_by cmp) xs []"

definition newest_first :: "('n, 's) env \<Rightarrow> poll \<Rightarrow> poll \<Rightarrow> int" where
  "newest_first E a b = locale_compare E (created_at b) (created_at a)"

text \<open>
  \<^verbatim>\<open>const localKey = String(localPoll?.meta?.created_local_id || pollId);\<close> with an absent
  id giving \<^verbatim>\<open>"undefined"\<close>, and the filter
  \<^verbatim>\<open>polls.filter(p => String(p?.meta?.created_local_id || "") === String(localKey))\<close>.
\<close>

definition local_key :: "poll \<Rightarrow> string" where
  "local_key p =
     (if meta_created_local_id p \<noteq> [] then meta_created_local_id p
      else if poll_id p \<noteq> [] then poll_id p
      else ''undefined'')"

definition matches_of :: "poll \<Rightarrow> poll list \<Rightarrow> poll list" where
  "matches_of localPoll polls = filter (\<lambda>p. meta_created_local_id p = local_key localPoll) polls"

datatype assert_outcome =
    AlreadyAsserted
  | MissingIdentityOutcome
  | AssertFailed nat
  | ResponseMissingPollId
  | AssertNetworkError
  | Matched string
  | Created string

text \<open>
  The carry-forward of the local vote onto a matched poll:
  \<^verbatim>\<open>
    try {
      const rList2 = await fetch(`${EXCHANGE_API}/polls`, { method: "GET" });
      if (rList2.ok) {
        const list2 = await rList2.json();
        const polls2 = Array.isArray(list2?.polls) ? list2.polls : [];
        const fullRemote = polls2.find(p => String(p?.id) === String(found.id));
        if (fullRemote) { const r = await castExchangeVoteByLabel(fullRemote, localChoice, out); ... }
      }
    } catch (e) { ... "Vote carry failed (network). Poll is live." }
  \<close>
\<close>

definition carry_vote_to_match ::
  "('n, 's) env \<Rightarrow> poll \<Rightarrow> string \<Rightarrow> 's world \<Rightarrow> 's world" where
  "carry_vote_to_match E found localChoice w =
     (case fetch E (plain_request ''GET'' ''/polls'') w of
        (Inl e, w1) \<Rightarrow> w1
      | (Inr (status, data), w1) \<Rightarrow>
          (if \<not> resp_ok status then w1
           else case data of
                  None \<Rightarrow> w1
                | Some d \<Rightarrow>
                    (case find (\<lambda>p. poll_id p = poll_id found)
                            (case rj_polls d of None \<Rightarrow> [] | Some ps \<Rightarrow> ps) of
                       None \<Rightarrow> w1
                     | Some fullRemote \<Rightarrow>
                         snd (castExchangeVoteByLabel E fullRemote localChoice w1))))"

definition finish_assert ::
  "('n, 's) env \<Rightarrow> string \<Rightarrow> string \<Rightarrow> 's world \<Rightarrow> 's world" where
  "finish_assert E pollId target w =
     openPoll_remote E target
       (refreshPolls E (w\<lparr>lstore := purgeLocalPollState pollId (lstore w)\<rparr>))"

text \<open>
  The lookup of an earlier assertion: \<open>Some\<close> of the newest match when
  \<^verbatim>\<open>GET /polls\<close> answers with a list that has one, \<open>None\<close> when the lookup fails or finds
  nothing (the code then falls back to creation).
\<close>

definition lookup_match ::
  "('n, 's) env \<Rightarrow> poll \<Rightarrow> 's world \<Rightarrow> poll option \<times> 's world" where
  "lookup_match E localPoll w =
     (case fetch E (plain_request ''GET'' ''/polls'') w of
        (Inl e, w1) \<Rightarrow> (None, w1)
      | (Inr (status, data), w1) \<Rightarrow>
          (if \<not> resp_ok status then (None, w1)
           else case data of
                  None \<Rightarrow> (None, w1)
                | Some d \<Rightarrow>
                    (case sort_by (newest_first E)
                            (matches_of localPoll
                               (case rj_polls d of None \<Rightarrow> [] | Some ps \<Rightarrow> ps)) of
                       [] \<Rightarrow> (None, w1)
                     | found # others \<Rightarrow> (Some found, w1))))"

text \<open>
  The creation payload:
  \<^verbatim>\<open>
    const payload = {
      title: localPoll.title,
      description: localPoll.question_html || "",
      type: "single",
      options: (localPoll.options || []).map(label => ({ label: String(label) })),
      meta: { poll_type: localPoll.poll_type || "", question_html: localPoll.question_html || "",
              created_local_id: localKey, asserted_at: Date.now() },
    };
  \<close>
\<close>

definition creation_payload :: "poll \<Rightarrow> nat \<Rightarrow> create_payload" where
  "creation_payload localPoll now =
     \<lparr>cp_title = title localPoll, cp_description = question_html localPoll,
      cp_type = ''single'', cp_options = map option_text (options localPoll),
      cp_meta_poll_type = poll_type localPoll,
      cp_meta_question_html = question_html localPoll,
      cp_meta_created_local_id = local_key localPoll,
      cp_meta_asserted_at = now\<rparr>"

text \<open>
  The creation branch:
  \<^verbatim>\<open>
    try {
      const r = await exchangeFetchAuthed("/polls", { method: "POST", body: payload });
      const raw = await r.text();
      if (!r.ok) { ... `Assert failed (${r.status}).`; return; }
      const data = JSON.parse(raw);
      const remotePoll = data?.poll;
      if (!remotePoll?.id) { ... "Assert ok, but response missing poll id."; return; }
      if (localChoice) {
        try { const r = await castExchangeVoteByLabel(remotePoll, localChoice, out); ... }
        catch (e) { ... "Vote carry failed (network). Poll is live." }
      }
      purgeLocalPollState(pollId);
      await refreshPolls();
      await openPoll({ id: remotePoll.id, is_local: false });
    } catch (e) { ... "Assert failed (network error)." }
  \<close>
\<close>

definition create_on_exchange ::
  "('n, 's) env \<Rightarrow> poll \<Rightarrow> string option \<Rightarrow> 's world \<Rightarrow> assert_outcome \<times> 's world" where
  "create_on_exchange E localPoll localChoice w =
     (let payload = creation_payload localPoll (date_now E (tick w));
          w0 = w\<lparr>tick := tick w + 1\<rparr>
      in case exchangeFetchAuthed E ''/polls'' ''POST'' (Some (CreateBody payload)) w0 of
           (Inl e, w1) \<Rightarrow> (AssertNetworkError, w1)
         | (Inr (status, data), w1) \<Rightarrow>
             (if \<not> resp_ok status then (AssertFailed status, w1)
              else case data of
                     None \<Rightarrow> (AssertNetworkError, w1)
                   | Some d \<Rightarrow>
                       (case rj_poll d of
                          None \<Rightarrow> (ResponseMissingPollId, w1)
                        | Some remotePoll \<Rightarrow>
                            (if poll_id remotePoll = [] then (ResponseMissingPollId, w1)
                             else
                               (let w2 = (case localChoice of
                                            None \<Rightarrow> w1
                                          | Some choice \<Rightarrow>
                                              snd (castExchangeVoteByLabel E remotePoll choice w1))
                                in (Created (poll_id remotePoll),
                                    finish_assert E (poll_id localPoll)
                                      (poll_id remotePoll) w2))))))"

text \<open>
  \<^verbatim>\<open>assertPollToExchange(localPoll)\<close>:
  \<^verbatim>\<open>
    const pollId = localPoll?.id;
    const localKey = String(localPoll?.meta?.created_local_id || pollId);
    const isLocal = !!localPoll?.is_local || String(pollId).startsWith("local_");
    if (!isLocal) { ... "Already asserted."; return; }
    const creds = getExchangeHmacCredsOrNull();
    if (!creds) { ... "Missing identity: create/import an Exchange identity first."; return; }
    const localChoice = getLocalSelectedChoice(localPoll);
    try {
      const before = getExchangeStampPool().length;
      if (!before) { await fetchStampsFromExchange(); }
      ...
    } catch (e) { /* Stamp fetch failure should not block assertion */ }
    try {
      const rList = await fetch(`${EXCHANGE_API}/polls`, { method: "GET" });
      if (rList.ok) {
        const list = await rList.json();
        const polls = Array.isArray(list?.polls) ? list.polls : [];
        const matches = polls.filter(...);
        if (matches.length) {
          matches.sort(...);
          const found = matches[0];
          if (localChoice) { (carry the vote) }
          purgeLocalPollState(pollId);
          await refreshPolls();
          await openPoll({ id: found.id, is_local: false });
          return;
        }
      }
    } catch (e) { /* If lookup fails, we fall back to POST assert below. */ }
    (the creation branch)
  \<close>
  \<open>assert_prelude\<close> is the part before the lookup: it gives the carried choice and the world
  in which the lookup starts.
\<close>

definition is_draft :: "poll \<Rightarrow> bool" where
  "is_draft p = (is_local p \<or> startsWith (poll_id p) ''local_'')"

definition assert_prelude ::
  "('n, 's) env \<Rightarrow> poll \<Rightarrow> 's world \<Rightarrow> string option \<times> 's world" where
  "assert_prelude E localPoll w =
     (case getLocalSelectedChoice E localPoll w of
        (localChoice, w1) \<Rightarrow>
          (localChoice,
           if getExchangeStampPool (lstore w1) = []
           then snd (fetchStampsFromExchange E w1) else w1))"

definition assertPollToExchange ::
  "('n, 's) env \<Rightarrow> poll \<Rightarrow> 's world \<Rightarrow> assert_outcome \<times> 's world" where
  "assertPollToExchange E localPoll w =
     (if \<not> is_draft localPoll then (AlreadyAsserted, w)
      else case getExchangeHmacCredsOrNull (lstore w) of
             None \<Rightarrow> (MissingIdentityOutcome, w)
           | Some creds \<Rightarrow>
               (case assert_prelude E localPoll w of
                  (localChoice, w1) \<Rightarrow>
                    (case lookup_match E localPoll w1 of
                       (Some found, w2) \<Rightarrow>
                         (let w3 = (case localChoice of
                                      None \<Rightarrow> w2
                                    | Some choice \<Rightarrow> carry_vote_to_match E found choice w2)
                          in (Matched (poll_id found),
                              finish_assert E (poll_id localPoll) (poll_id found) w3))
                     | (None, w2) \<Rightarrow> create_on_exchange E localPoll localChoice w2)))"

text \<open>The local polls and the local vote states of a storage: what a purge destroys.\<close>

definition drafts :: "storage \<Rightarrow> poll list \<times> (string \<times> vote_state) list" where
  "drafts s = (breadpoll_local_polls s, breadpoll_local_votes s)"

definition is_create :: "body request \<Rightarrow> bool" where
  "is_create rq = (req_method rq = ''POST'' \<and> req_path rq = ''/polls'')"

section \<open>The remote index, for running assertions\<close>

text \<open>
  Modelled from the spec: the remote Exchange is not part of the client's source. Of its
  HTTP surface (specification, section 6) the model keeps the poll index: \<^verbatim>\<open>GET /polls\<close>
  answers \<^verbatim>\<open>{ polls: [...] }\<close> with every poll of the index; \<^verbatim>\<open>POST /polls\<close> adds a poll
  with a fresh id, ordinal option ids and the \<^verbatim>\<open>meta.created_local_id\<close> of the payload, and
  answers \<^verbatim>\<open>{ poll: {id, ...} }\<close>; \<^verbatim>\<open>POST /stamp\<close> issues one stamp; a vote is accepted
  and answered with a voter token.
\<close>

definition created_poll :: "nat \<Rightarrow> create_payload \<Rightarrow> poll" where
  "created_poll n cp =
     \<lparr>poll_id = ''x'' @ String_nat n, is_local = False, title = cp_title cp,
      question_html = cp_meta_question_html cp, poll_type = cp_meta_poll_type cp,
      options = map (\<lambda>(i, l). Option (Some (String_nat (i + 1))) (Some l))
                  (enumerate 0 (cp_options cp)),
      created_at = String_nat (cp_meta_asserted_at cp),
      meta_created_local_id = cp_meta_created_local_id cp,
      meta_exchange_poll_id = [], meta_exchange_id = [], exchange_poll_id = [],
      exchange_id = []\<rparr>"

definition exchange_index :: "poll list \<Rightarrow> body request \<Rightarrow> int response \<times> poll list" where
  "exchange_index index rq =
     (if req_method rq = ''GET'' \<and> req_path rq = ''/polls''
      then (Response 200 (Some (empty_json\<lparr>rj_polls := Some index\<rparr>)), index)
      else if req_method rq = ''POST'' \<and> req_path rq = ''/polls''
      then (case req_body rq of
              Some (CreateBody cp) \<Rightarrow>
                (Response 200
                   (Some (empty_json\<lparr>rj_poll := Some (created_poll (length index + 1) cp)\<rparr>)),
                 index @ [created_poll (length index + 1) cp])
            | _ \<Rightarrow> (Response 400 None, index))
      else if req_path rq = ''/stamp''
      then (Response 200 (Some (empty_json\<lparr>rj_issued := Some [JStr ''s_1'']\<rparr>)), index)
      else (Response 200 (Some (empty_json\<lparr>rj_voter_token := Some ''vt_1''\<rparr>)), index))"

text \<open>An Exchange that answers every request with status 500.\<close>

definition answers_500 :: "unit \<Rightarrow> body request \<Rightarrow> int response \<times> unit" where
  "answers_500 s rq = (Response 500 None, s)"

text \<open>The draft of the specification's scenario, with a recorded local vote for Tacos.\<close>

definition lunch_draft :: poll where
  "lunch_draft =
     \<lparr>poll_id = ''local_1'', is_local = True, title = ''Lunch?'', question_html = [],
      poll_type = ''YES_NO'', options = [Label ''Pizza'', Label ''Tacos''],
      created_at = ''1700000000000'', meta_created_local_id = [],
      meta_exchange_poll_id = [], meta_exchange_id = [], exchange_poll_id = [],
      exchange_id = []\<rparr>"

definition draft_storage :: storage where
  "draft_storage =
     toy_identity
       \<lparr>exchange_stamps := Some [''s_a''],
        breadpoll_tokens := [(''local_1'', ''localtok_1'')],
        breadpoll_local_polls := [lunch_draft],
        breadpoll_local_votes :=
          [(''local_1'', \<lparr>byToken = [(''localtok_1'', ''Tacos'')],
                          counts = [(''Pizza'', 0), (''Tacos'', 1)]\<rparr>)]\<rparr>"

definition draft_world :: "'s \<Rightarrow> 's world" where
  "draft_world s = \<lparr>lstore = draft_storage, remote = s, sent = [], tick = 0\<rparr>"

text \<open>The same draft on a device with no stored identity.\<close>

definition anonymous_world :: "unit world" where
  "anonymous_world =
     \<lparr>lstore = draft_storage\<lparr>exchange_self_id := None, exchange_signing_key := None\<rparr>,
      remote = (), sent = [], tick = 0\<rparr>"

text \<open>A comparator is consistent when it is total and transitive: then every sort
  algorithm puts a greatest element first.\<close>

definition consistent_compare :: "(string \<Rightarrow> string \<Rightarrow> int) \<Rightarrow> bool" where
  "consistent_compare cmp \<longleftrightarrow>
     (\<forall>a b. cmp a b \<le> 0 \<or> cmp b a \<le> 0)
     \<and> (\<forall>a b c. cmp a b \<le> 0 \<and> cmp b c \<le> 0 \<longrightarrow> cmp a c \<le> 0)"

definition no_create :: "'s world \<Rightarrow> 's world \<Rightarrow> bool" where
  "no_create w w' \<longleftrightarrow> (\<exists>new. sent w' = sent w @ new \<and> (\<forall>rq \<in> set new. \<not> is_create rq))"


text \<open>
  The state of the remote Exchange after a list of requests, the stored identity of a
  storage, and the relation between two worlds of one run: the later world has sent some
  further requests, the Exchange has answered exactly those, and the identity is the same.
\<close>

definition run_server :: "('n, 's) env \<Rightarrow> 's \<Rightarrow> body request list \<Rightarrow> 's" where
  "run_server E s rqs = foldl (\<lambda>st rq. snd (respond E st rq)) s rqs"

definition identity_of :: "storage \<Rightarrow> string option \<times> string option" where
  "identity_of s = (exchange_self_id s, exchange_signing_key s)"

definition trace :: "('n, 's) env \<Rightarrow> 's world \<Rightarrow> 's world \<Rightarrow> bool" where
  "trace E w w' \<longleftrightarrow>
     (\<exists>new. sent w' = sent w @ new \<and> remote w' = run_server E (remote w) new)
     \<and> identity_of (lstore w') = identity_of (lstore w)"




chapter \<open>Properties\<close>

section \<open>Properties of the proof-of-work solver\<close>

lemma startsWith_zeros_iff:
  "startsWith h (replicate k CHR ''0'') \<longleftrightarrow> k \<le> leading_zeros h"
proof (induction h arbitrary: k)
  case Nil
  then show ?case by (simp add: startsWith_def leading_zeros_def)
next
  case (Cons c h)
  show ?case
  proof (cases k)
    case 0
    then show ?thesis by (simp add: startsWith_def)
  next
    case (Suc j)
    with Cons [of j] show ?thesis
      by (auto simp: startsWith_def leading_zeros_def)
  qed
qed

lemma accepts_iff_prefix:
  "pow_accepts digest challenge d n \<longleftrightarrow>
     startsWith (sha256Hex digest (challenge @ '':'' @ String_nat n))
       (replicate (nat (max 0 d)) CHR ''0'')"
  by (auto simp: pow_accepts_def startsWith_zeros_iff)

lemma solve_loop_finds:
  assumes "pow_accepts digest challenge d k" and "k \<le> 2 ^ 53" and "n \<le> k"
    and "\<forall>m. n \<le> m \<and> m < k \<longrightarrow> \<not> pow_accepts digest challenge d m"
  shows "solve_loop digest challenge (replicate (nat (max 0 d)) CHR ''0'') n
           = Some (String_nat k)"
  using assms
proof (induction "k - n" arbitrary: n)
  case 0
  then have "n = k" by simp
  with 0 show ?case
    by (subst solve_loop.simps) (simp add: accepts_iff_prefix Let_def)
next
  case (Suc j)
  then have lt: "n < k" by simp
  with Suc.prems have no: "\<not> pow_accepts digest challenge d n" by simp
  from lt Suc.prems have inc: "nonce_incr n = Suc n" by (simp add: nonce_incr_def)
  have "solve_loop digest challenge (replicate (nat (max 0 d)) CHR ''0'') (Suc n)
          = Some (String_nat k)"
    using Suc.hyps Suc.prems lt by (intro Suc.hyps(1)) auto
  with no inc show ?case
    by (subst solve_loop.simps) (simp add: accepts_iff_prefix Let_def)
qed

text \<open>
  C2. Whenever some nonce among the enumerated candidates \<open>0, 1, 2, \<dots>\<close> (the counter is
  exact up to \<open>2^53\<close>) gives a hash with at least \<open>d\<close> leading zero characters, the solver
  returns: its result is the decimal string of a nonce \<open>k\<close> whose hash has at least \<open>d\<close>
  leading zeros, and no smaller nonce has one.
\<close>

theorem solvePowLite_first_nonce:
  assumes "pow_accepts digest challenge d n" and "n \<le> 2 ^ 53"
  shows "\<exists>k \<le> n. solvePowLite digest challenge d = Some (String_nat k)
           \<and> pow_accepts digest challenge d k
           \<and> (\<forall>m < k. \<not> pow_accepts digest challenge d m)"
proof -
  define k where "k = (LEAST i. pow_accepts digest challenge d i)"
  have acc: "pow_accepts digest challenge d k"
    unfolding k_def using assms(1) by (rule LeastI)
  have le: "k \<le> n"
    unfolding k_def using assms(1) by (rule Least_le)
  have least: "\<forall>m < k. \<not> pow_accepts digest challenge d m"
    unfolding k_def using not_less_Least by blast
  have "solve_loop digest challenge (replicate (nat (max 0 d)) CHR ''0'') 0
          = Some (String_nat k)"
    using acc le assms(2) least by (intro solve_loop_finds) auto
  with acc le least show ?thesis
    unfolding solvePowLite_def by blast
qed

theorem solvePowLite_first_nonce_witness:
  "pow_accepts toy_digest ''c'' 2 3 \<and> (3::nat) \<le> 2 ^ 53
   \<and> (\<exists>k \<le> 3. solvePowLite toy_digest ''c'' 2 = Some (String_nat k)
           \<and> pow_accepts toy_digest ''c'' 2 k
           \<and> (\<forall>m < k. \<not> pow_accepts toy_digest ''c'' 2 m))"
proof -
  have a: "pow_accepts toy_digest ''c'' 2 3"
    by (simp add: pow_accepts_def String_nat.simps dec_digit_def sha256Hex_def toy_digest_def
        bytesToHex_def byte_hex_def hex_digit_def leading_zeros_def)
  have b: "(3::nat) \<le> 2 ^ 53" by simp
  from solvePowLite_first_nonce [OF a b] a b show ?thesis by blast
qed

text \<open>
  Conversely, whatever the solver returns is the decimal string of an enumerated candidate
  that the predicate accepts; when no candidate up to \<open>2^53\<close> is accepted it never returns.
\<close>

lemma solve_loop_Some:
  assumes "solve_loop digest challenge p n = Some y"
  shows "\<exists>m. n \<le> m \<and> m \<le> max n (2 ^ 53)
           \<and> startsWith (sha256Hex digest (challenge @ '':'' @ String_nat m)) p
           \<and> y = String_nat m"
proof (rule solve_loop.raw_induct [where P = "\<lambda>digest challenge p n y.
     \<exists>m. n \<le> m \<and> m \<le> max n (2 ^ 53)
       \<and> startsWith (sha256Hex digest (challenge @ '':'' @ String_nat m)) p
       \<and> y = String_nat m", OF _ assms])
  fix f digest challenge p n y
  assume IH: "\<And>digest challenge p n y. f digest challenge p n = Some y \<Longrightarrow>
       \<exists>m. n \<le> m \<and> m \<le> max n (2 ^ 53)
         \<and> startsWith (sha256Hex digest (challenge @ '':'' @ String_nat m)) p
         \<and> y = String_nat m"
    and eq: "(let candidate = String_nat n;
                  h = sha256Hex digest (challenge @ '':'' @ candidate)
              in if startsWith h p then Some candidate
                 else f digest challenge p (nonce_incr n)) = Some y"
  show "\<exists>m. n \<le> m \<and> m \<le> max n (2 ^ 53)
          \<and> startsWith (sha256Hex digest (challenge @ '':'' @ String_nat m)) p
          \<and> y = String_nat m"
  proof (cases "startsWith (sha256Hex digest (challenge @ '':'' @ String_nat n)) p")
    case True
    with eq show ?thesis by (auto simp: Let_def)
  next
    case False
    with eq have "f digest challenge p (nonce_incr n) = Some y"
      by (simp add: Let_def)
    from IH [OF this] obtain m where m: "nonce_incr n \<le> m" "m \<le> max (nonce_incr n) (2 ^ 53)"
      "startsWith (sha256Hex digest (challenge @ '':'' @ String_nat m)) p" "y = String_nat m"
      by blast
    from m(1,2) have "n \<le> m \<and> m \<le> max n (2 ^ 53)"
      by (auto simp: nonce_incr_def split: if_splits)
    with m(3,4) show ?thesis by blast
  qed
qed

lemma solvePowLite_never_returns:
  assumes "\<forall>m \<le> 2 ^ 53. \<not> pow_accepts digest challenge d m"
  shows "solvePowLite digest challenge d = None"
proof (rule ccontr)
  assume "solvePowLite digest challenge d \<noteq> None"
  then obtain y where "solve_loop digest challenge (replicate (nat (max 0 d)) CHR ''0'') 0 = Some y"
    by (auto simp: solvePowLite_def)
  from solve_loop_Some [OF this] obtain m where "m \<le> 2 ^ 53" "pow_accepts digest challenge d m"
    by (auto simp: accepts_iff_prefix)
  with assms show False by blast
qed

section \<open>Properties of the request signer\<close>

lemma length_bytesToHex: "length (bytesToHex bs) = 2 * length bs"
  by (induction bs) (simp_all add: bytesToHex_def byte_hex_def)

lemma signPath_api: "signPath path = ''/api'' @ path"
  by (simp add: signPath_def EXCHANGE_API_def url_pathname_def drop_trailing_slash_def)

lemma signing_base_join:
  "signing_base method path ts nonce bodyHash
     = join_with [CHR 0x0A] [toUpperCase method, path, ts, nonce, bodyHash]"
  by (simp add: signing_base_def join_with_def)

lemma buildHmacHeaders_no_identity:
  "getExchangeHmacCredsOrNull ls = None \<Longrightarrow>
     buildHmacHeaders P ls now rnd method path body = Inl MissingIdentity"
  by (simp add: buildHmacHeaders_def)

lemma toy_identity_creds:
  "getExchangeHmacCredsOrNull toy_identity = Some \<lparr>self_id = ''me'', signing_key = ''0aFF''\<rparr>"
  by (simp add: getExchangeHmacCredsOrNull_def getExchangeSelfIdOrNull_def
      getExchangeSigningKeyOrNull_def trimmed_item_def trim_def is_space_def toy_identity_def)

lemma toy_key_bytes: "hexToBytes ''0aFF'' = Some [10, 255]"
  by (simp add: hexToBytes_def trim_def is_space_def hex_value_def Let_def)

text \<open>
  C3. With a stored identity whose signing key is valid hexadecimal, the signer returns
  headers whose timestamp is the decimal string of the millisecond clock, whose nonce is the
  hexadecimal text of the 12 random bytes drawn in this call (24 characters), and whose
  signature is the HMAC-SHA256, under the key's bytes, of the five fields joined by newlines:
  the upper-cased method, the path, the timestamp, the nonce, and the SHA-256 hash of the
  JSON text of the body (of the empty text for a null body). The request sent by
  \<^verbatim>\<open>exchangeFetchAuthed\<close> carries the headers computed for the path prefixed with
  \<^verbatim>\<open>/api\<close>.
\<close>

theorem signed_request_canonical_base:
  assumes "getExchangeHmacCredsOrNull ls = Some creds"
    and "hexToBytes (signing_key creds) = Some keyBytes"
  shows "\<exists>h. buildHmacHeaders P ls now rnd method path body = Inr h
      \<and> X_Self_ID h = self_id creds
      \<and> X_Timestamp h = String_nat now
      \<and> X_Nonce h = bytesToHex (map rnd [0..<12])
      \<and> length (X_Nonce h) = 24
      \<and> X_Signature h = bytesToHex (hmac_sha256 P keyBytes
           (join_with [CHR 0x0A]
              [toUpperCase method, path, String_nat now, X_Nonce h,
               sha256Hex (sha256_digest P)
                 (case body of None \<Rightarrow> [] | Some b \<Rightarrow> json_stringify P b)]))
      \<and> (\<exists>rq h'. exchangeFetchAuthed_request P ls now rnd path opts_method body = Inr rq
            \<and> req_hmac rq = Some h'
            \<and> buildHmacHeaders P ls now rnd (req_method rq) (''/api'' @ path) body = Inr h')"
  using assms
  by (simp add: buildHmacHeaders_def hmacSha256Hex_def makeNonceHex_def Let_def
      length_bytesToHex signing_base_join exchangeFetchAuthed_request_def signPath_api)

theorem signed_request_canonical_base_witness:
  "getExchangeHmacCredsOrNull toy_identity = Some \<lparr>self_id = ''me'', signing_key = ''0aFF''\<rparr>
   \<and> hexToBytes (signing_key \<lparr>self_id = ''me'', signing_key = ''0aFF''\<rparr>) = Some [10, 255]
   \<and> (\<exists>h. buildHmacHeaders toy_platform toy_identity 1700000000000 of_nat ''post''
              ''/api/stamp'' (Some ()) = Inr h
          \<and> X_Timestamp h = String_nat 1700000000000
          \<and> X_Nonce h = bytesToHex (map of_nat [0..<12])
          \<and> X_Signature h = bytesToHex (hmac_sha256 toy_platform [10, 255]
               (join_with [CHR 0x0A]
                  [toUpperCase ''post'', ''/api/stamp'', String_nat 1700000000000, X_Nonce h,
                   sha256Hex (sha256_digest toy_platform) (json_stringify toy_platform ())])))"
proof -
  have k: "hexToBytes (signing_key \<lparr>self_id = ''me'', signing_key = ''0aFF''\<rparr>) = Some [10, 255]"
    by (simp add: toy_key_bytes)
  from signed_request_canonical_base [OF toy_identity_creds k,
      of toy_platform 1700000000000 of_nat "''post''" "''/api/stamp''" "Some ()"]
  show ?thesis using toy_identity_creds k by auto
qed

section \<open>Properties of the stamp pool\<close>
















lemma pickOneStampOrNull_writes_nothing: "snd (pickOneStampOrNull u ls) = ls"
  by (simp add: pickOneStampOrNull_def Let_def)

text \<open>
  C1. The declaration of \<^verbatim>\<open>pickOneStampOrNull\<close> that runs returns a pooled stamp and
  leaves the persisted pool as it was, so the next pick returns the same stamp again. The
  shadowed first declaration is the one that removes the stamp.
\<close>

theorem pickOneStampOrNull_returns_stamp_twice:
  "pickOneStampOrNull 0 one_stamp_storage = (Some ''s_a'', one_stamp_storage)
   \<and> getExchangeStampPool (snd (pickOneStampOrNull 0 one_stamp_storage)) = [''s_a'']
   \<and> fst (pickOneStampOrNull 0 (snd (pickOneStampOrNull 0 one_stamp_storage))) = Some ''s_a''"
  by (simp add: pickOneStampOrNull_def getExchangeStampPool_def one_stamp_storage_def Let_def)

lemma pickOneStampOrNull_first_removes:
  "getExchangeStampPool (snd (pickOneStampOrNull_first one_stamp_storage)) = []
   \<and> fst (pickOneStampOrNull_first one_stamp_storage) = Some ''s_a''"
  by (simp add: pickOneStampOrNull_first_def getExchangeStampPool_def one_stamp_storage_def)

section \<open>Properties of local votes\<close>



































section \<open>Properties of the results normalizer\<close>

lemma get_prop_field: "truthy ops x \<Longrightarrow> get_prop x k = Inr (field x k)"
  by (cases x) (auto simp: field_def)

lemma truthy_object_iff: "truthy ops v \<and> typeof_object v \<longleftrightarrow> is_object v"
  by (cases v) (auto simp: is_object_def)

lemma is_object_truthy: "is_object v \<Longrightarrow> truthy ops v"
  by (cases v) (auto simp: is_object_def)

lemma object_prop_field:
  "truthy ops x \<Longrightarrow>
     object_prop ops x k = Inr (if is_object (field x k) then Some (field x k) else None)"
  by (simp add: object_prop_def get_prop_field bind_err_def truthy_object_iff)

lemma first_object_find:
  "\<forall>(x, k) \<in> set xs. truthy ops x \<Longrightarrow>
     first_object ops xs = Inr (find is_object (map (\<lambda>(x, k). field x k) xs))"
  by (induction xs) (auto simp: object_prop_field bind_err_def)

lemma first_object_prop_find:
  "\<forall>(x, k) \<in> set xs. truthy ops x \<Longrightarrow>
     first_object_prop ops xs = Inr (find is_object (map (\<lambda>(x, k). field x k) xs))"
  by (induction xs) (auto simp: object_prop_field bind_err_def)

lemma first_typed_find:
  "\<forall>(x, k) \<in> set xs. truthy ops x \<Longrightarrow>
     first_typed P xs = Inr (find P (map (\<lambda>(x, k). field x k) xs))"
  by (induction xs) (auto simp: get_prop_field bind_err_def)

lemma truthy_spec_raw: "truthy ops (spec_raw ops obj)"
  by (simp add: spec_raw_def)

lemma truthy_spec_results: "truthy ops (spec_results ops obj)"
  by (auto simp: spec_results_def first_or_def or_else_def truthy_spec_raw is_object_truthy)

lemma Object_values_object: "is_object v \<Longrightarrow> Object_values v = Inr (values_of v)"
  by (cases v) (auto simp: is_object_def values_of_def)

lemma first_or_cases: "P fallback \<Longrightarrow> P (first_or P xs fallback)"
  by (auto simp: first_or_def or_else_def find_Some_iff split: option.splits)

lemma is_object_spec_totals: "is_object (spec_totals ops obj)"
  unfolding spec_totals_def by (rule first_or_cases) (simp add: is_object_def)

lemma results_is: "or_else (if is_object (field (spec_raw ops obj) ''results'')
        then Some (field (spec_raw ops obj) ''results'') else None) (spec_raw ops obj)
     = spec_results ops obj"
  by (simp add: spec_results_def first_or_def or_else_def)

lemma weights_truthy_or_null:
  "truthy ops (spec_weights_used ops obj) \<or> spec_weights_used ops obj = JNull"
  by (auto simp: spec_weights_used_def first_or_def or_else_def find_Some_iff is_object_truthy
      split: option.splits)

lemma bind_err_Inr: "bind_err (Inr x) f = f x"
  by (simp add: bind_err_def)

lemma field_JNull: "field JNull k = JUndef"
  by (simp add: field_def)

lemma first_typed_pair:
  "truthy ops x \<Longrightarrow> truthy ops y \<Longrightarrow>
     first_typed P [(x, k), (y, l)] = Inr (find P [field x k, field y l])"
  using first_typed_find [of "[(x, k), (y, l)]" ops P] by simp

lemma first_typed_single:
  "truthy ops x \<Longrightarrow> first_typed P [(x, k)] = Inr (find P [field x k])"
  using first_typed_find [of "[(x, k)]" ops P] by simp

lemma represented_weight_spec:
  "represented_weight_of ops (spec_weights_used ops obj) (spec_results ops obj)
       (spec_raw ops obj) (spec_totals ops obj)
     = Inr (spec_represented_weight ops obj)"
proof -
  have people: "first_typed typeof_number
       [(spec_results ops obj, ''represented_people''), (spec_raw ops obj, ''represented_people'')]
     = Inr (find typeof_number [field (spec_results ops obj) ''represented_people'',
                                 field (spec_raw ops obj) ''represented_people''])"
    using truthy_spec_results truthy_spec_raw by (rule first_typed_pair)
  have vals: "Object_values (spec_totals ops obj) = Inr (values_of (spec_totals ops obj))"
    using is_object_spec_totals by (rule Object_values_object)
  show ?thesis
  proof (cases "truthy ops (spec_weights_used ops obj)")
    case True
    then have w: "first_typed typeof_number [(spec_weights_used ops obj, ''sum'')]
        = Inr (find typeof_number [field (spec_weights_used ops obj) ''sum''])"
      by (rule first_typed_single)
    show ?thesis
      unfolding represented_weight_of_def people vals
      by (simp add: True w bind_err_Inr spec_represented_weight_def first_or_def or_else_def
          del: first_typed.simps)
  next
    case False
    with weights_truthy_or_null [of ops obj] have n: "spec_weights_used ops obj = JNull" by simp
    show ?thesis
      unfolding represented_weight_of_def people vals
      by (simp add: n bind_err_Inr spec_represented_weight_def first_or_def or_else_def
          field_JNull del: first_typed.simps)
  qed
qed

lemma normalizeResults_refines_spec:
  "normalizeResults ops obj = Inr (normalizeResults_spec ops obj)"
proof -
  let ?raw = "spec_raw ops obj" and ?r = "spec_results ops obj"
  have raw: "truthy ops ?raw" by (rule truthy_spec_raw)
  have r: "truthy ops ?r" by (rule truthy_spec_results)
  have s1: "object_prop ops ?raw ''results''
      = Inr (if is_object (field ?raw ''results'') then Some (field ?raw ''results'') else None)"
    using raw by (rule object_prop_field)
  have s2: "first_object ops [(?r, ''totals''), (?r, ''counts''), (?raw, ''totals''), (?raw, ''counts'')]
      = Inr (find is_object [field ?r ''totals'', field ?r ''counts'',
                             field ?raw ''totals'', field ?raw ''counts''])"
    using first_object_find [of "[(?r, ''totals''), (?r, ''counts''), (?raw, ''totals''),
        (?raw, ''counts'')]" ops] raw r by simp
  have s3: "first_typed P [(?r, k), (?raw, k)] = Inr (find P [field ?r k, field ?raw k])" for P k
    using r raw by (rule first_typed_pair)
  have s4: "first_object_prop ops [(?r, ''weights_used''), (?raw, ''weights_used'')]
      = Inr (find is_object [field ?r ''weights_used'', field ?raw ''weights_used''])"
    using first_object_prop_find [of "[(?r, ''weights_used''), (?raw, ''weights_used'')]" ops]
      raw r by simp
  have t: "or_else (find is_object [field ?r ''totals'', field ?r ''counts'',
                             field ?raw ''totals'', field ?raw ''counts'']) (JObj [])
      = spec_totals ops obj"
    by (simp add: spec_totals_def first_or_def)
  have w: "or_else (find is_object [field ?r ''weights_used'', field ?raw ''weights_used'']) JNull
      = spec_weights_used ops obj"
    by (simp add: spec_weights_used_def first_or_def)
  show ?thesis
    unfolding normalizeResults_def Let_def spec_raw_def [symmetric] s1 bind_err_Inr results_is
      s2 s3 s4 t w represented_weight_spec
    by (simp add: normalizeResults_spec_def spec_number_def first_or_def)
qed

text \<open>
  C9. On every payload the normalizer returns (it never throws), and what it returns is the
  record the specification describes: \<open>totals\<close> is the first object among
  \<^verbatim>\<open>results.totals\<close>, \<^verbatim>\<open>results.counts\<close>, \<^verbatim>\<open>totals\<close> and \<^verbatim>\<open>counts\<close>;
  \<open>people_voted\<close> and \<open>total_votes\<close> are \<^verbatim>\<open>null\<close> when neither the nested nor the
  top-level field is a number; \<open>represented_weight\<close> is \<^verbatim>\<open>weights_used.sum\<close> when that
  is a number, else \<^verbatim>\<open>represented_people\<close> when that is a number, else the sum of the
  values of \<open>totals\<close>.
\<close>

theorem normalizeResults_total_and_fallbacks:
  "normalizeResults ops obj = Inr (normalizeResults_spec ops obj)
   \<and> (\<forall>k. \<not> typeof_number (field (spec_results ops obj) k)
           \<and> \<not> typeof_number (field (spec_raw ops obj) k)
         \<longrightarrow> spec_number ops obj k = JNull \<and> spec_number ops obj k \<noteq> JNum (num_zero ops))
   \<and> (typeof_number (field (spec_weights_used ops obj) ''sum'')
         \<longrightarrow> spec_represented_weight ops obj = field (spec_weights_used ops obj) ''sum'')
   \<and> (\<not> typeof_number (field (spec_weights_used ops obj) ''sum'')
         \<and> typeof_number (field (spec_results ops obj) ''represented_people'')
         \<longrightarrow> spec_represented_weight ops obj
               = field (spec_results ops obj) ''represented_people'')
   \<and> (\<not> typeof_number (field (spec_weights_used ops obj) ''sum'')
         \<and> \<not> typeof_number (field (spec_results ops obj) ''represented_people'')
         \<and> \<not> typeof_number (field (spec_raw ops obj) ''represented_people'')
         \<longrightarrow> spec_represented_weight ops obj
               = JNum (sum_values ops (values_of (spec_totals ops obj))))"
  using normalizeResults_refines_spec [of ops obj]
  by (simp add: spec_number_def spec_represented_weight_def first_or_def or_else_def)

lemmas normalize_eval = normalizeResults_spec_def spec_totals_def spec_number_def
  spec_weights_used_def spec_represented_weight_def spec_results_def spec_raw_def
  first_or_def or_else_def field_def is_object_def values_of_def sum_values_def
  add_value_def Number_def int_ops_def nested_counts_payload_def

theorem normalizeResults_total_and_fallbacks_witness:
  "normalizeResults int_ops nested_counts_payload =
     Inr \<lparr>nr_totals = JObj [(''1'', JNum 3), (''2'', JNum 4)],
          nr_people_voted = JNull,
          nr_represented_weight = JNum 7,
          nr_total_votes = JNull,
          nr_validated = JNull,
          nr_weights_used = JNull,
          nr_raw = nested_counts_payload\<rparr>"
proof -
  have "normalizeResults_spec int_ops nested_counts_payload =
     \<lparr>nr_totals = JObj [(''1'', JNum 3), (''2'', JNum 4)],
      nr_people_voted = JNull,
      nr_represented_weight = JNum 7,
      nr_total_votes = JNull,
      nr_validated = JNull,
      nr_weights_used = JNull,
      nr_raw = nested_counts_payload\<rparr>"
    by (simp add: normalize_eval)
  with normalizeResults_total_and_fallbacks [of int_ops nested_counts_payload]
  show ?thesis by simp
qed

text \<open>
  The three documented payload shapes (bare \<^verbatim>\<open>totals\<close>, bare \<^verbatim>\<open>counts\<close>, nested
  \<^verbatim>\<open>results.totals\<close>) give the same canonical \<open>totals\<close>.
\<close>

lemma normalizeResults_shapes_agree:
  "spec_totals ops (JObj [(''totals'', JObj m)]) = JObj m
   \<and> spec_totals ops (JObj [(''counts'', JObj m)]) = JObj m
   \<and> spec_totals ops (JObj [(''results'', JObj [(''totals'', JObj m)])]) = JObj m"
  by (simp add: spec_totals_def spec_results_def spec_raw_def first_or_def or_else_def
      field_def is_object_def)

section \<open>Properties of the remote vote\<close>

lemma fetch_sent: "fetch E rq w = (res, w') \<Longrightarrow> sent w' = sent w @ [rq]"
  by (auto simp: fetch_def Let_def split: prod.splits response.splits)

lemma fetch_lstore: "fetch E rq w = (res, w') \<Longrightarrow> lstore w' = lstore w"
  by (auto simp: fetch_def Let_def split: prod.splits response.splits)

lemma signed_request_shape:
  "exchangeFetchAuthed_request P s now rnd path m b = Inr rq \<Longrightarrow> req_path rq = path \<and> req_body rq = b"
  by (auto simp: exchangeFetchAuthed_request_def Let_def split: sum.splits)

lemma exchangeFetchAuthed_sent:
  assumes "exchangeFetchAuthed E path method b w = (res, w')"
  shows "lstore w' = lstore w
     \<and> ((sent w' = sent w \<and> (\<exists>e. res = Inl e))
          \<or> (\<exists>rq. sent w' = sent w @ [rq] \<and> req_path rq = path \<and> req_body rq = b))"
proof (cases "exchangeFetchAuthed_request (platform E) (lstore w) (date_now E (tick w))
             (random_values E (tick w)) path (Some method) b")
  case (Inl e)
  with assms show ?thesis by (auto simp: exchangeFetchAuthed_def Let_def)
next
  case (Inr rq)
  with assms have f: "fetch E rq (w\<lparr>tick := tick w + 1\<rparr>) = (res, w')"
    by (simp add: exchangeFetchAuthed_def Let_def)
  from fetch_sent [OF f] fetch_lstore [OF f] signed_request_shape [OF Inr]
  show ?thesis by auto
qed

lemma fetchStamps_sent:
  assumes "fetchStampsFromExchange E w = (res, w')"
  shows "\<exists>new. sent w' = sent w @ new \<and> mint_only new
     \<and> (new = [] \<longrightarrow> lstore w' = lstore w)"
proof (cases "getExchangeHmacCredsOrNull (lstore w)")
  case None
  with assms show ?thesis by (auto simp: fetchStampsFromExchange_def mint_only_def)
next
  case (Some creds)
  obtain r w1 where x: "exchangeFetchAuthed E ''/stamp'' ''POST'' (Some StampBody) w = (r, w1)"
    by (cases "exchangeFetchAuthed E ''/stamp'' ''POST'' (Some StampBody) w")
  from assms Some x have s: "sent w' = sent w1"
    and l: "(\<exists>e. r = Inl e) \<longrightarrow> lstore w' = lstore w1"
    by (auto simp: fetchStampsFromExchange_def split: sum.splits option.splits prod.splits)
  from exchangeFetchAuthed_sent [OF x] s l show ?thesis
    by (auto simp: mint_only_def is_mint_def is_vote_def)
qed


lemma pick_in_world_sent:
  "pick_in_world E w = (st, w') \<Longrightarrow> sent w' = sent w \<and> lstore w' = lstore w
     \<and> (\<forall>s. st = Some s \<longrightarrow> s \<in> set (getExchangeStampPool (lstore w)))"
  by (auto simp: pick_in_world_def pickOneStampOrNull_def Let_def split: if_splits)

lemma getOrFetch_sent:
  assumes "getOrFetchOneStampOrNull E w = (st, w')"
  shows "\<exists>new. sent w' = sent w @ new \<and> mint_only new
     \<and> (new = [] \<longrightarrow> lstore w' = lstore w)
     \<and> (\<forall>s. st = Some s \<longrightarrow> s \<in> set (getExchangeStampPool (lstore w')))"
proof (cases "getExchangeStampPool (lstore w) \<noteq> []")
  case True
  with assms have "pick_in_world E w = (st, w')" by (simp add: getOrFetchOneStampOrNull_def)
  from pick_in_world_sent [OF this] show ?thesis by (auto simp: mint_only_def)
next
  case False
  show ?thesis
  proof (cases "getExchangeHmacCredsOrNull (lstore w)")
    case None
    with assms False show ?thesis by (auto simp: getOrFetchOneStampOrNull_def mint_only_def)
  next
    case (Some creds)
    obtain r w1 where f: "fetchStampsFromExchange E w = (r, w1)"
      by (cases "fetchStampsFromExchange E w")
    from fetchStamps_sent [OF f] obtain new where new: "sent w1 = sent w @ new" "mint_only new"
      "new = [] \<longrightarrow> lstore w1 = lstore w" by blast
    show ?thesis
    proof (cases r)
      case (Inl e)
      with assms False Some f have "w' = w1" "st = None"
        by (auto simp: getOrFetchOneStampOrNull_def)
      with new show ?thesis by auto
    next
      case (Inr u)
      with assms False Some f have "pick_in_world E w1 = (st, w')"
        by (auto simp: getOrFetchOneStampOrNull_def)
      from pick_in_world_sent [OF this] new show ?thesis by auto
    qed
  qed
qed

lemma filter_mint_only:
  "mint_only new \<Longrightarrow> length (filter is_mint new) \<le> 1 \<and> filter is_vote new = []
     \<and> (filter is_mint new = [] \<longrightarrow> new = [])"
  by (auto simp: mint_only_def)

lemma vote_request_is_vote: "is_vote (vote_request pollId oid st tok)"
  by (simp add: is_vote_def vote_request_def)

lemma vote_request_not_mint: "\<not> is_mint (vote_request pollId oid st tok)"
  by (simp add: is_mint_def vote_request_def)

lemma record_accepted_vote_pool:
  "getExchangeStampPool (record_accepted_vote d pollId label s) = getExchangeStampPool s"
  by (auto simp: record_accepted_vote_def setRemoteLastChoice_def setToken_def
      getExchangeStampPool_def split: option.splits)

lemma retry_after_403_sent:
  assumes "retry_after_403 E pollId oid label w = (ok, w')"
  shows "\<exists>new. sent w' = sent w @ new
     \<and> length (filter is_mint new) \<le> 1 \<and> length (filter is_vote new) \<le> 1
     \<and> (filter is_mint new = [] \<longrightarrow> getExchangeStampPool (lstore w') = [])
     \<and> (\<forall>rq \<in> set (filter is_vote new). \<exists>s. req_stamp rq = Some s
            \<and> s \<in> set (getExchangeStampPool (lstore w')))"
proof -
  define w1 where "w1 = w\<lparr>lstore := clearExchangeStampPool (lstore w)\<rparr>"
  have c: "getExchangeStampPool (lstore w1) = []" "sent w1 = sent w"
    by (simp_all add: w1_def clearExchangeStampPool_def getExchangeStampPool_def)
  obtain st w2 where g: "getOrFetchOneStampOrNull E w1 = (st, w2)"
    by (cases "getOrFetchOneStampOrNull E w1")
  from getOrFetch_sent [OF g] obtain new where new: "sent w2 = sent w1 @ new" "mint_only new"
    "new = [] \<longrightarrow> lstore w2 = lstore w1"
    "\<forall>s. st = Some s \<longrightarrow> s \<in> set (getExchangeStampPool (lstore w2))" by blast
  note m = filter_mint_only [OF new(2)]
  show ?thesis
  proof (cases "\<exists>s. st = Some s \<and> s \<noteq> []")
    case False
    with assms g have "w' = w2"
      by (auto simp: retry_after_403_def w1_def [symmetric] Let_def split: option.splits)
    with new m c show ?thesis by (intro exI [of _ new]) auto
  next
    case True
    then obtain s where s: "st = Some s" "s \<noteq> []" by blast
    obtain r w3 where f: "fetch E (vote_request pollId oid (Some s) None) w2 = (r, w3)"
      by (cases "fetch E (vote_request pollId oid (Some s) None) w2")
    from assms g s f have p: "getExchangeStampPool (lstore w') = getExchangeStampPool (lstore w3)"
      and sn: "sent w' = sent w3"
      by (auto simp: retry_after_403_def w1_def [symmetric] Let_def record_accepted_vote_pool
          split: sum.splits if_splits)
    have rs: "req_stamp (vote_request pollId oid (Some s) None) = Some s"
      by (simp add: vote_request_def)
    from new(4) s have "s \<in> set (getExchangeStampPool (lstore w2))" by simp
    with fetch_sent [OF f] fetch_lstore [OF f] new(1,3) m c p sn rs show ?thesis
      by (intro exI [of _ "new @ [vote_request pollId oid (Some s) None]"])
         (auto simp: vote_request_is_vote vote_request_not_mint)
  qed
qed


lemma new_requests_append: "sent w' = sent w @ new \<Longrightarrow> new_requests w w' = new"
  by (simp add: new_requests_def)

lemma send_vote_sent:
  assumes "send_vote E pollId oid label stamp tok w = (res, w')"
  shows "\<exists>new. sent w' = sent w @ vote_request pollId oid stamp tok # new
     \<and> length (filter is_mint new) \<le> 1 \<and> length (filter is_vote new) \<le> 1
     \<and> (tok \<noteq> None \<longrightarrow> new = [] \<and> (res \<noteq> Inr VoteOk \<longrightarrow> lstore w' = lstore w))"
proof -
  obtain r w1 where f: "fetch E (vote_request pollId oid stamp tok) w = (r, w1)"
    by (cases "fetch E (vote_request pollId oid stamp tok) w")
  note fs = fetch_sent [OF f] fetch_lstore [OF f]
  show ?thesis
  proof (cases "\<exists>status data. r = Inr (status, data) \<and> \<not> resp_ok status \<and> tok = None \<and> status = 403")
    case True
    then obtain data where r: "r = Inr (403, data)" "\<not> resp_ok 403" "tok = None" by blast
    obtain ok w2 where t: "retry_after_403 E pollId oid label w1 = (ok, w2)"
      by (cases "retry_after_403 E pollId oid label w1")
    from assms f r t have "w' = w2"
      by (auto simp: send_vote_def split: bool.splits)
    with retry_after_403_sent [OF t] fs r show ?thesis by auto
  next
    case False
    with assms f have "sent w' = sent w1" "res \<noteq> Inr VoteOk \<longrightarrow> lstore w' = lstore w1"
      by (auto simp: send_vote_def split: sum.splits if_splits bool.splits prod.splits)
    with fs show ?thesis by auto
  qed
qed

lemma castExchangeVoteByLabel_sent:
  assumes "castExchangeVoteByLabel E p label w = (res, w')"
  shows "\<exists>new. sent w' = sent w @ new
     \<and> length (filter is_vote new) \<le> 2 \<and> length (filter is_mint new) \<le> 2
     \<and> (getToken (lstore w) (exchange_poll_id_of p) \<noteq> None \<longrightarrow>
           length (filter is_vote new) \<le> 1 \<and> filter is_mint new = []
           \<and> (res \<noteq> Inr VoteOk \<longrightarrow> lstore w' = lstore w))"
proof -
  define pollId where "pollId = exchange_poll_id_of p"
  show ?thesis
  proof (cases "startsWith pollId ''local_'' \<or> pollId = []
      \<or> findIndex (\<lambda>opt. option_label opt = Some label) (options p) = None")
    case True
    with assms have "w' = w"
      by (auto simp: castExchangeVoteByLabel_def Let_def pollId_def [symmetric]
          split: if_splits)
    then show ?thesis by simp
  next
    case False
    then obtain idx where i: "\<not> startsWith pollId ''local_''" "pollId \<noteq> []"
      "findIndex (\<lambda>opt. option_label opt = Some label) (options p) = Some idx" by auto
    define oid where "oid = option_id_at (options p) idx"
    show ?thesis
    proof (cases "getToken (lstore w) pollId")
      case (Some tok)
      with assms i have "send_vote E pollId oid label None (Some tok) w = (res, w')"
        by (simp add: castExchangeVoteByLabel_def Let_def pollId_def [symmetric] oid_def)
      from send_vote_sent [OF this] show ?thesis
        by (auto simp: vote_request_is_vote vote_request_not_mint pollId_def [symmetric])
    next
      case None
      obtain st w1 where g: "getOrFetchOneStampOrNull E w = (st, w1)"
        by (cases "getOrFetchOneStampOrNull E w")
      from getOrFetch_sent [OF g] obtain new where new: "sent w1 = sent w @ new" "mint_only new"
        by blast
      note m = filter_mint_only [OF new(2)]
      show ?thesis
      proof (cases "\<exists>s. st = Some s \<and> s \<noteq> []")
        case False
        with assms i None g have "w' = w1"
          by (auto simp: castExchangeVoteByLabel_def Let_def pollId_def [symmetric]
              split: option.splits)
        with new m None show ?thesis
          by (intro exI [of _ new]) (auto simp: pollId_def [symmetric])
      next
        case True
        then obtain s where s: "st = Some s" "s \<noteq> []" by blast
        with assms i None g have "send_vote E pollId oid label (Some s) None w1 = (res, w')"
          by (simp add: castExchangeVoteByLabel_def Let_def pollId_def [symmetric] oid_def)
        from send_vote_sent [OF this] obtain more where
          "sent w' = sent w1 @ vote_request pollId oid (Some s) None # more"
          "length (filter is_mint more) \<le> 1" "length (filter is_vote more) \<le> 1" by blast
        with new m None show ?thesis
          by (intro exI [of _ "new @ vote_request pollId oid (Some s) None # more"])
             (auto simp: vote_request_is_vote vote_request_not_mint pollId_def [symmetric])
      qed
    qed
  qed
qed

text \<open>
  Bounds that hold of every call: the block that runs after a 403 sends at most one mint
  request and at most one further vote request, and a whole call of
  \<^verbatim>\<open>castExchangeVoteByLabel\<close> sends at most two vote requests.
\<close>

lemma vote_requests_bounded:
  "(\<exists>new. sent (snd (retry_after_403 E pollId oid label w)) = sent w @ new
      \<and> length (filter is_mint new) \<le> 1 \<and> length (filter is_vote new) \<le> 1
      \<and> (filter is_mint new = [] \<longrightarrow>
            getExchangeStampPool (lstore (snd (retry_after_403 E pollId oid label w))) = [])
      \<and> (\<forall>rq \<in> set (filter is_vote new). \<exists>s. req_stamp rq = Some s
            \<and> s \<in> set (getExchangeStampPool
                        (lstore (snd (retry_after_403 E pollId oid label w))))))
   \<and> (\<exists>new. sent (snd (castExchangeVoteByLabel E p label w)) = sent w @ new
      \<and> length (filter is_vote new) \<le> 2 \<and> length (filter is_mint new) \<le> 2)"
proof
  obtain ok w' where r: "retry_after_403 E pollId oid label w = (ok, w')"
    by (cases "retry_after_403 E pollId oid label w")
  from retry_after_403_sent [OF r] r
  show "\<exists>new. sent (snd (retry_after_403 E pollId oid label w)) = sent w @ new
      \<and> length (filter is_mint new) \<le> 1 \<and> length (filter is_vote new) \<le> 1
      \<and> (filter is_mint new = [] \<longrightarrow>
            getExchangeStampPool (lstore (snd (retry_after_403 E pollId oid label w))) = [])
      \<and> (\<forall>rq \<in> set (filter is_vote new). \<exists>s. req_stamp rq = Some s
            \<and> s \<in> set (getExchangeStampPool
                        (lstore (snd (retry_after_403 E pollId oid label w)))))"
    by simp
next
  obtain res w' where c: "castExchangeVoteByLabel E p label w = (res, w')"
    by (cases "castExchangeVoteByLabel E p label w")
  from castExchangeVoteByLabel_sent [OF c] c
  show "\<exists>new. sent (snd (castExchangeVoteByLabel E p label w)) = sent w @ new
      \<and> length (filter is_vote new) \<le> 2 \<and> length (filter is_mint new) \<le> 2"
    by auto
qed

lemma no_creds_no_request:
  "getExchangeHmacCredsOrNull ls = None \<Longrightarrow>
   exchangeFetchAuthed_request P ls now rnd path m b = Inl MissingIdentity"
  by (simp add: exchangeFetchAuthed_request_def buildHmacHeaders_def Let_def)

lemma cleared_pool_empty: "getExchangeStampPool (clearExchangeStampPool ls) = []"
  by (simp add: clearExchangeStampPool_def getExchangeStampPool_def)

lemma getOrFetch_empty_pool:
  assumes e: "getExchangeStampPool (lstore w) = []"
    and g: "getOrFetchOneStampOrNull E w = (st, w')"
  shows "sent w' = sent w @
           (case exchangeFetchAuthed_request (platform E) (lstore w) (date_now E (tick w))
                   (random_values E (tick w)) ''/stamp'' (Some ''POST'') (Some StampBody) of
              Inl e \<Rightarrow> [] | Inr rq \<Rightarrow> [rq])"
    and "\<forall>s. st = Some s \<longrightarrow> s \<in> set (getExchangeStampPool (lstore w'))"
proof -
  let ?rq = "exchangeFetchAuthed_request (platform E) (lstore w) (date_now E (tick w))
     (random_values E (tick w)) ''/stamp'' (Some ''POST'') (Some StampBody)"
  from getOrFetch_sent [OF g]
  show "\<forall>s. st = Some s \<longrightarrow> s \<in> set (getExchangeStampPool (lstore w'))" by blast
  show "sent w' = sent w @ (case ?rq of Inl e \<Rightarrow> [] | Inr rq \<Rightarrow> [rq])"
  proof (cases "getExchangeHmacCredsOrNull (lstore w)")
    case None
    with e g show ?thesis
      by (simp add: getOrFetchOneStampOrNull_def no_creds_no_request)
  next
    case (Some creds)
    show ?thesis
    proof (cases ?rq)
      case (Inl err)
      with e g Some show ?thesis
        by (auto simp: getOrFetchOneStampOrNull_def fetchStampsFromExchange_def
            exchangeFetchAuthed_def Let_def)
    next
      case (Inr rq)
      obtain r w1 where f: "fetch E rq (w\<lparr>tick := tick w + 1\<rparr>) = (r, w1)"
        by (cases "fetch E rq (w\<lparr>tick := tick w + 1\<rparr>)")
      from fetch_sent [OF f] have s1: "sent w1 = sent w @ [rq]" by simp
      from e g Some Inr f have "sent w' = sent w1"
        by (auto simp: getOrFetchOneStampOrNull_def fetchStampsFromExchange_def
            exchangeFetchAuthed_def Let_def pick_in_world_def pickOneStampOrNull_def
            split: sum.splits option.splits prod.splits if_splits)
      with s1 Inr show ?thesis by simp
    qed
  qed
qed


lemma resp_ok_403: "\<not> resp_ok 403"
  by (simp add: resp_ok_def)

lemma mint_request_no_vote:
  "filter is_vote
     (case exchangeFetchAuthed_request P ls now rnd ''/stamp'' (Some ''POST'') (Some StampBody) of
        Inl e \<Rightarrow> [] | Inr rq \<Rightarrow> [rq]) = []"
  by (auto simp: is_vote_def split: sum.splits dest: signed_request_shape)

text \<open>
  C7 (amended). A first vote (no stored voter token) was sent with a stamp and answered 403.
  The client then clears the stamp pool and asks for a stamp once more: this sends exactly
  one mint request when the stored identity can sign it and none otherwise, and a stamp it
  yields is one of the pool after that mint. If it yields a stamp, the client sends exactly
  one further vote request, carrying that stamp, and the call succeeds or reports the 403
  according to the answer; if it yields none, the client sends no further vote request and
  reports the 403. There is never a second retry: the call sends two vote requests when it
  retries and one when it does not.
\<close>

theorem first_vote_403_retries_once_iff_stamp:
  assumes target: "\<not> startsWith (exchange_poll_id_of p) ''local_''" "exchange_poll_id_of p \<noteq> []"
    and opt: "findIndex (\<lambda>opt. option_label opt = Some label) (options p) = Some idx"
    and first: "getToken (lstore w) (exchange_poll_id_of p) = None"
    and stamp: "getOrFetchOneStampOrNull E w = (Some stamp, w1)" "stamp \<noteq> []"
    and rejected: "fetch E (vote_request (exchange_poll_id_of p) (option_id_at (options p) idx)
                     (Some stamp) None) w1 = (Inr (403, data), wr)"
    and again: "getOrFetchOneStampOrNull E (wr\<lparr>lstore := clearExchangeStampPool (lstore wr)\<rparr>)
                  = (stamp2, w2)"
  shows "sent wr = sent w1 @ [vote_request (exchange_poll_id_of p)
                               (option_id_at (options p) idx) (Some stamp) None]
     \<and> sent w2 = sent wr @
           (case exchangeFetchAuthed_request (platform E) (clearExchangeStampPool (lstore wr))
                   (date_now E (tick wr)) (random_values E (tick wr))
                   ''/stamp'' (Some ''POST'') (Some StampBody) of
              Inl e \<Rightarrow> [] | Inr rq \<Rightarrow> [rq])
     \<and> (\<forall>s. stamp2 = Some s \<longrightarrow> s \<in> set (getExchangeStampPool (lstore w2)))
     \<and> sent (snd (castExchangeVoteByLabel E p label w)) = sent w2 @
           (case stamp2 of
              None \<Rightarrow> []
            | Some s \<Rightarrow> if s = [] then []
                        else [vote_request (exchange_poll_id_of p)
                                (option_id_at (options p) idx) (Some s) None])
     \<and> length (filter is_vote (new_requests w (snd (castExchangeVoteByLabel E p label w))))
         = (if stamp2 = None \<or> stamp2 = Some [] then 1 else 2)
     \<and> (stamp2 = None \<or> stamp2 = Some [] \<longrightarrow>
          fst (castExchangeVoteByLabel E p label w) = Inr (VoteRejected 403))
     \<and> (\<forall>s. stamp2 = Some s \<and> s \<noteq> [] \<longrightarrow>
          fst (castExchangeVoteByLabel E p label w)
            = (case fst (fetch E (vote_request (exchange_poll_id_of p)
                                    (option_id_at (options p) idx) (Some s) None) w2) of
                 Inl e \<Rightarrow> Inr (VoteRejected 403)
               | Inr (status2, data2) \<Rightarrow>
                   if resp_ok status2 then Inr VoteOk else Inr (VoteRejected 403)))"
proof -
  define pid where "pid = exchange_poll_id_of p"
  define oid where "oid = option_id_at (options p) idx"
  define wc where "wc = wr\<lparr>lstore := clearExchangeStampPool (lstore wr)\<rparr>"
  define retry where "retry = (case stamp2 of
              None \<Rightarrow> []
            | Some s \<Rightarrow> if s = [] then [] else [vote_request pid oid (Some s) None])"
  note rejected' = rejected [folded pid_def oid_def]
  note again' = again [folded wc_def]
  have cast: "castExchangeVoteByLabel E p label w
      = send_vote E pid oid label (Some stamp) None w1"
    using target opt first stamp
    by (simp add: castExchangeVoteByLabel_def Let_def pid_def oid_def)
  have send: "send_vote E pid oid label (Some stamp) None w1
      = (case retry_after_403 E pid oid label wr of
           (True, v) \<Rightarrow> (Inr VoteOk, v)
         | (False, v) \<Rightarrow> (Inr (VoteRejected 403), v))"
    using rejected' by (simp add: send_vote_def resp_ok_403)
  have s1: "sent wr = sent w1 @ [vote_request pid oid (Some stamp) None]"
    using fetch_sent [OF rejected'] .
  have e: "getExchangeStampPool (lstore wc) = []"
    by (simp add: wc_def cleared_pool_empty)
  from getOrFetch_empty_pool [OF e again']
  have s2: "sent w2 = sent wr @
           (case exchangeFetchAuthed_request (platform E) (clearExchangeStampPool (lstore wr))
                   (date_now E (tick wr)) (random_values E (tick wr))
                   ''/stamp'' (Some ''POST'') (Some StampBody) of
              Inl e \<Rightarrow> [] | Inr rq \<Rightarrow> [rq])"
    and pool: "\<forall>s. stamp2 = Some s \<longrightarrow> s \<in> set (getExchangeStampPool (lstore w2))"
    by (simp_all add: wc_def)
  obtain ok v where rr: "retry_after_403 E pid oid label wr = (ok, v)"
    by (cases "retry_after_403 E pid oid label wr")
  have r: "sent v = sent w2 @ retry \<and> (stamp2 = None \<or> stamp2 = Some [] \<longrightarrow> \<not> ok)
      \<and> (\<forall>s. stamp2 = Some s \<and> s \<noteq> [] \<longrightarrow>
            ok = (case fst (fetch E (vote_request pid oid (Some s) None) w2) of
                    Inl e \<Rightarrow> False | Inr (status2, data2) \<Rightarrow> resp_ok status2))"
  proof (cases "\<exists>s. stamp2 = Some s \<and> s \<noteq> []")
    case False
    with again' rr show ?thesis
      by (auto simp: retry_after_403_def Let_def wc_def [symmetric] retry_def
          split: option.splits)
  next
    case True
    then obtain s where s: "stamp2 = Some s" "s \<noteq> []" by blast
    obtain res w3 where f: "fetch E (vote_request pid oid (Some s) None) w2 = (res, w3)"
      by (cases "fetch E (vote_request pid oid (Some s) None) w2")
    from again' rr s f have "sent v = sent w3"
      "ok = (case res of Inl e \<Rightarrow> False | Inr (status2, data2) \<Rightarrow> resp_ok status2)"
      by (auto simp: retry_after_403_def Let_def wc_def [symmetric]
          split: sum.splits if_splits)
    with fetch_sent [OF f] s f show ?thesis by (simp add: retry_def)
  qed
  have res: "castExchangeVoteByLabel E p label w
      = (if ok then Inr VoteOk else Inr (VoteRejected 403), v)"
    by (cases ok) (simp_all add: cast send rr)
  have s3: "sent (snd (castExchangeVoteByLabel E p label w)) = sent w2 @ retry"
    using r by (simp add: res)
  have out: "stamp2 = None \<or> stamp2 = Some [] \<longrightarrow>
      fst (castExchangeVoteByLabel E p label w) = Inr (VoteRejected 403)"
    using r by (auto simp: res)
  have out2: "\<forall>s. stamp2 = Some s \<and> s \<noteq> [] \<longrightarrow>
          fst (castExchangeVoteByLabel E p label w)
            = (case fst (fetch E (vote_request pid oid (Some s) None) w2) of
                 Inl e \<Rightarrow> Inr (VoteRejected 403)
               | Inr (status2, data2) \<Rightarrow>
                   if resp_ok status2 then Inr VoteOk else Inr (VoteRejected 403))"
    using r by (auto simp: res split: sum.splits)
  from getOrFetch_sent [OF stamp(1)] obtain new0 where
    n0: "sent w1 = sent w @ new0" "mint_only new0" by blast
  have v0: "filter is_vote new0 = []" using filter_mint_only [OF n0(2)] by simp
  have vr: "length (filter is_vote retry) = (if stamp2 = None \<or> stamp2 = Some [] then 0 else 1)"
    by (auto simp: retry_def vote_request_is_vote split: option.splits)
  have "new_requests w (snd (castExchangeVoteByLabel E p label w))
      = new0 @ [vote_request pid oid (Some stamp) None] @
        (case exchangeFetchAuthed_request (platform E) (clearExchangeStampPool (lstore wr))
                   (date_now E (tick wr)) (random_values E (tick wr))
                   ''/stamp'' (Some ''POST'') (Some StampBody) of
              Inl e \<Rightarrow> [] | Inr rq \<Rightarrow> [rq]) @ retry"
    by (rule new_requests_append) (simp add: s3 s2 s1 n0(1))
  then have count: "length (filter is_vote
      (new_requests w (snd (castExchangeVoteByLabel E p label w))))
      = (if stamp2 = None \<or> stamp2 = Some [] then 1 else 2)"
    by (simp add: v0 vr mint_request_no_vote vote_request_is_vote)
  from s1 s2 pool s3 count out out2 show ?thesis
    unfolding retry_def pid_def oid_def by blast
qed


lemmas world_eval = castExchangeVoteByLabel_def send_vote_def retry_after_403_def
  getOrFetchOneStampOrNull_def fetchStampsFromExchange_def exchangeFetchAuthed_def
  exchangeFetchAuthed_request_def buildHmacHeaders_def hmacSha256Hex_def pick_in_world_def
  pickOneStampOrNull_def fetch_def vote_request_def exchange_poll_id_of_def first_truthy_def
  option_label_def option_id_at_def getToken_def clearExchangeStampPool_def
  getExchangeStampPool_def store_mint_response_def resp_ok_def startsWith_def
  toy_env_def answers_403_def answers_invalid_token_def answers_403_reissues_def
  lunch_remote_def stamp_world_def token_world_def one_stamp_storage_def toy_identity_def
  toy_key_bytes empty_json_def getExchangeHmacCredsOrNull_def getExchangeSelfIdOrNull_def
  getExchangeSigningKeyOrNull_def trimmed_item_def trim_def is_space_def
  addStampsToPool_def add_if_stamp_def new_Set_def Set_add_def
  record_accepted_vote_def setToken_def setRemoteLastChoice_def
  is_vote_def is_mint_def Let_def

theorem first_vote_403_retries_once_iff_stamp_witness:
  "fst (castExchangeVoteByLabel (toy_env answers_403_reissues) lunch_remote ''Tacos'' stamp_world)
     = Inr (VoteRejected 403)
   \<and> map is_vote (sent (snd (castExchangeVoteByLabel (toy_env answers_403_reissues)
        lunch_remote ''Tacos'' stamp_world))) = [True, False, True]
   \<and> map is_mint (sent (snd (castExchangeVoteByLabel (toy_env answers_403_reissues)
        lunch_remote ''Tacos'' stamp_world))) = [False, True, False]
   \<and> map req_stamp (sent (snd (castExchangeVoteByLabel (toy_env answers_403_reissues)
        lunch_remote ''Tacos'' stamp_world))) = [Some ''s_a'', None, Some ''s_new'']
   \<and> length (filter is_vote (new_requests stamp_world
        (snd (castExchangeVoteByLabel (toy_env answers_403_reissues) lunch_remote ''Tacos''
           stamp_world)))) = 2"
proof -
  let ?E = "toy_env answers_403_reissues :: (int, unit) env"
  define w1 where "w1 = snd (getOrFetchOneStampOrNull ?E stamp_world)"
  define rq where "rq = vote_request (exchange_poll_id_of lunch_remote)
      (option_id_at (options lunch_remote) 1) (Some ''s_a'') None"
  define wr where "wr = snd (fetch ?E rq w1)"
  define w2 where "w2 = snd (getOrFetchOneStampOrNull ?E
      (wr\<lparr>lstore := clearExchangeStampPool (lstore wr)\<rparr>))"
  have target: "\<not> startsWith (exchange_poll_id_of lunch_remote) ''local_''"
    "exchange_poll_id_of lunch_remote \<noteq> []"
    by (simp_all add: world_eval)
  have opt: "findIndex (\<lambda>opt. option_label opt = Some ''Tacos'') (options lunch_remote) = Some 1"
    by (simp add: lunch_remote_def option_label_def)
  have first: "getToken (lstore stamp_world) (exchange_poll_id_of lunch_remote) = None"
    by (simp add: world_eval)
  have stamp: "getOrFetchOneStampOrNull ?E stamp_world = (Some ''s_a'', w1)"
    by (simp add: w1_def prod_eq_iff world_eval)
  have rejected: "fetch ?E rq w1 = (Inr (403, None), wr)"
    by (simp add: wr_def prod_eq_iff fetch_def toy_env_def answers_403_reissues_def rq_def
        vote_request_def split: prod.splits)
  have again: "getOrFetchOneStampOrNull ?E (wr\<lparr>lstore := clearExchangeStampPool (lstore wr)\<rparr>)
      = (Some ''s_new'', w2)"
    by (simp add: w2_def wr_def w1_def rq_def prod_eq_iff world_eval)
  have c: "fst (castExchangeVoteByLabel ?E lunch_remote ''Tacos'' stamp_world)
      = Inr (VoteRejected 403)
   \<and> map is_vote (sent (snd (castExchangeVoteByLabel ?E lunch_remote ''Tacos'' stamp_world)))
      = [True, False, True]
   \<and> map is_mint (sent (snd (castExchangeVoteByLabel ?E lunch_remote ''Tacos'' stamp_world)))
      = [False, True, False]
   \<and> map req_stamp (sent (snd (castExchangeVoteByLabel ?E lunch_remote ''Tacos'' stamp_world)))
      = [Some ''s_a'', None, Some ''s_new'']"
    by (simp add: world_eval)
  from first_vote_403_retries_once_iff_stamp [OF target opt first stamp _ rejected [unfolded rq_def]
      again]
  have "length (filter is_vote (new_requests stamp_world
        (snd (castExchangeVoteByLabel ?E lunch_remote ''Tacos'' stamp_world)))) = 2"
    by simp
  with c show ?thesis by simp
qed

text \<open>
  C7 as stated fails when the mint after the rejection leaves no stamp: the first vote is
  answered 403, the pool is cleared, the mint issues nothing, and no retry is sent.
\<close>

theorem first_vote_403_no_retry_counterexample:
  "fst (castExchangeVoteByLabel (toy_env answers_403) lunch_remote ''Tacos'' stamp_world)
     = Inr (VoteRejected 403)
   \<and> map is_vote (sent (snd (castExchangeVoteByLabel (toy_env answers_403) lunch_remote
        ''Tacos'' stamp_world))) = [True, False]
   \<and> map is_mint (sent (snd (castExchangeVoteByLabel (toy_env answers_403) lunch_remote
        ''Tacos'' stamp_world))) = [False, True]"
  by (simp add: world_eval)

lemma rejected_revote_keeps_storage:
  assumes "castExchangeVoteByLabel E p label w = (res, w')"
    and "getToken (lstore w) (exchange_poll_id_of p) \<noteq> None" and "res \<noteq> Inr VoteOk"
  shows "lstore w' = lstore w"
  using castExchangeVoteByLabel_sent [OF assms(1)] assms(2,3) by blast

text \<open>
  C8. A vote sent with a stored voter token and rejected leaves the storage, and so the
  token, as it was: \<^verbatim>\<open>castExchangeVoteByLabel\<close> has no branch that clears a token. With
  the token \<^verbatim>\<open>"vt_old"\<close> stored for the poll and an Exchange answering
  \<^verbatim>\<open>"invalid X-Voter-Token"\<close>, the token is still stored after the call, and a second
  call sends it again.
\<close>

theorem revote_invalid_token_keeps_token:
  "fst (castExchangeVoteByLabel (toy_env answers_invalid_token) lunch_remote ''Tacos'' token_world)
     = Inr (VoteRejected 401)
   \<and> getToken (lstore (snd (castExchangeVoteByLabel (toy_env answers_invalid_token) lunch_remote
        ''Tacos'' token_world))) ''p1'' = Some ''vt_old''
   \<and> map req_voter_token (sent (snd (castExchangeVoteByLabel (toy_env answers_invalid_token)
        lunch_remote ''Tacos''
        (snd (castExchangeVoteByLabel (toy_env answers_invalid_token) lunch_remote ''Tacos''
           token_world))))) = [Some ''vt_old'', Some ''vt_old'']"
  by (simp add: world_eval)

section \<open>Properties of the assertion\<close>

lemma drafts_upd [simp]:
  "drafts (s\<lparr>exchange_stamps := a\<rparr>) = drafts s"
  "drafts (s\<lparr>exchange_persona_id := b\<rparr>) = drafts s"
  "drafts (s\<lparr>breadpoll_tokens := c\<rparr>) = drafts s"
  "drafts (s\<lparr>breadpoll_remote_last_choice := d\<rparr>) = drafts s"
  by (simp_all add: drafts_def)

lemma drafts_addStampsToPool: "drafts (addStampsToPool issued s) = drafts s"
  by (simp add: addStampsToPool_def Let_def)

lemma drafts_store_mint_response: "drafts (store_mint_response d s) = drafts s"
  by (simp add: store_mint_response_def Let_def drafts_addStampsToPool split: option.splits)

lemma drafts_record_accepted_vote: "drafts (record_accepted_vote d pollId label s) = drafts s"
  by (simp add: record_accepted_vote_def setRemoteLastChoice_def setToken_def split: option.splits)

lemma drafts_clear: "drafts (clearExchangeStampPool s) = drafts s"
  by (simp add: clearExchangeStampPool_def)

lemma fetch_drafts: "fetch E rq w = (res, w') \<Longrightarrow> drafts (lstore w') = drafts (lstore w)"
  by (simp add: fetch_lstore)

lemma exchangeFetchAuthed_drafts:
  "exchangeFetchAuthed E path m b w = (res, w') \<Longrightarrow> drafts (lstore w') = drafts (lstore w)"
  using exchangeFetchAuthed_sent by fastforce

lemma fetchStamps_drafts:
  assumes "fetchStampsFromExchange E w = (res, w')"
  shows "drafts (lstore w') = drafts (lstore w)"
proof (cases "getExchangeHmacCredsOrNull (lstore w)")
  case None
  with assms show ?thesis by (simp add: fetchStampsFromExchange_def)
next
  case (Some creds)
  obtain r w1 where x: "exchangeFetchAuthed E ''/stamp'' ''POST'' (Some StampBody) w = (r, w1)"
    by (cases "exchangeFetchAuthed E ''/stamp'' ''POST'' (Some StampBody) w")
  from assms Some x have "drafts (lstore w') = drafts (lstore w1)"
    by (auto simp: fetchStampsFromExchange_def drafts_store_mint_response
        split: sum.splits option.splits prod.splits)
  with exchangeFetchAuthed_drafts [OF x] show ?thesis by simp
qed

lemma pick_drafts: "pick_in_world E w = (st, w') \<Longrightarrow> drafts (lstore w') = drafts (lstore w)"
  using pick_in_world_sent by fastforce

lemma getOrFetch_drafts:
  assumes "getOrFetchOneStampOrNull E w = (st, w')"
  shows "drafts (lstore w') = drafts (lstore w)"
proof -
  obtain r w1 where f: "fetchStampsFromExchange E w = (r, w1)"
    by (cases "fetchStampsFromExchange E w")
  obtain st2 w2 where p: "pick_in_world E w1 = (st2, w2)"
    by (cases "pick_in_world E w1")
  obtain st3 w3 where q: "pick_in_world E w = (st3, w3)"
    by (cases "pick_in_world E w")
  from assms f p q have "w' = w \<or> w' = w1 \<or> w' = w2 \<or> w' = w3"
    by (auto simp: getOrFetchOneStampOrNull_def split: if_splits option.splits sum.splits)
  with fetchStamps_drafts [OF f] pick_drafts [OF p] pick_drafts [OF q] show ?thesis by auto
qed

lemma retry_drafts:
  assumes "retry_after_403 E pollId oid label w = (ok, w')"
  shows "drafts (lstore w') = drafts (lstore w)"
proof -
  define w1 where "w1 = w\<lparr>lstore := clearExchangeStampPool (lstore w)\<rparr>"
  have c: "drafts (lstore w1) = drafts (lstore w)" by (simp add: w1_def drafts_clear)
  obtain st w2 where g: "getOrFetchOneStampOrNull E w1 = (st, w2)"
    by (cases "getOrFetchOneStampOrNull E w1")
  note d2 = getOrFetch_drafts [OF g]
  show ?thesis
  proof (cases "\<exists>s. st = Some s \<and> s \<noteq> []")
    case False
    with assms g have "w' = w2"
      by (auto simp: retry_after_403_def w1_def [symmetric] Let_def split: option.splits)
    with d2 c show ?thesis by simp
  next
    case True
    then obtain s where s: "st = Some s" "s \<noteq> []" by blast
    obtain r w3 where f: "fetch E (vote_request pollId oid (Some s) None) w2 = (r, w3)"
      by (cases "fetch E (vote_request pollId oid (Some s) None) w2")
    from assms g s f have "drafts (lstore w') = drafts (lstore w3)"
      by (auto simp: retry_after_403_def w1_def [symmetric] Let_def drafts_record_accepted_vote
          split: sum.splits if_splits)
    with fetch_drafts [OF f] d2 c show ?thesis by simp
  qed
qed

lemma send_vote_drafts:
  assumes "send_vote E pollId oid label stamp tok w = (res, w')"
  shows "drafts (lstore w') = drafts (lstore w)"
proof -
  obtain r w1 where f: "fetch E (vote_request pollId oid stamp tok) w = (r, w1)"
    by (cases "fetch E (vote_request pollId oid stamp tok) w")
  obtain ok w2 where t: "retry_after_403 E pollId oid label w1 = (ok, w2)"
    by (cases "retry_after_403 E pollId oid label w1")
  from assms f t have "drafts (lstore w') = drafts (lstore w1) \<or> w' = w2"
    by (auto simp: send_vote_def drafts_record_accepted_vote
        split: sum.splits if_splits bool.splits prod.splits)
  with fetch_drafts [OF f] retry_drafts [OF t] show ?thesis by auto
qed

lemma castExchangeVoteByLabel_drafts:
  assumes "castExchangeVoteByLabel E p label w = (res, w')"
  shows "drafts (lstore w') = drafts (lstore w)"
proof -
  obtain st w1 where g: "getOrFetchOneStampOrNull E w = (st, w1)"
    by (cases "getOrFetchOneStampOrNull E w")
  note d1 = getOrFetch_drafts [OF g]
  from assms g have "w' = w \<or> w' = w1
      \<or> (\<exists>pollId oid stamp tok. send_vote E pollId oid label stamp tok w = (res, w'))
      \<or> (\<exists>pollId oid stamp tok. send_vote E pollId oid label stamp tok w1 = (res, w'))"
    by (auto simp: castExchangeVoteByLabel_def Let_def split: if_splits option.splits)
  with d1 send_vote_drafts show ?thesis by fastforce
qed

lemma snd_cast_drafts:
  "drafts (lstore (snd (castExchangeVoteByLabel E p label w))) = drafts (lstore w)"
  by (cases "castExchangeVoteByLabel E p label w") (simp add: castExchangeVoteByLabel_drafts)

lemma ensureLocalToken_drafts:
  "ensureLocalToken E pollId w = (tok, w') \<Longrightarrow> drafts (lstore w') = drafts (lstore w)"
  by (auto simp: ensureLocalToken_def Let_def setToken_def split: option.splits)

lemma getLocalSelectedChoice_drafts:
  "getLocalSelectedChoice E p w = (c, w') \<Longrightarrow> drafts (lstore w') = drafts (lstore w)"
  by (auto simp: getLocalSelectedChoice_def split: if_splits prod.splits option.splits
      dest: ensureLocalToken_drafts)

lemma assert_prelude_drafts:
  assumes "assert_prelude E p w = (c, w')"
  shows "drafts (lstore w') = drafts (lstore w)"
proof -
  obtain c1 w1 where g: "getLocalSelectedChoice E p w = (c1, w1)"
    by (cases "getLocalSelectedChoice E p w")
  obtain r w2 where f: "fetchStampsFromExchange E w1 = (r, w2)"
    by (cases "fetchStampsFromExchange E w1")
  from assms g f have "w' = w1 \<or> w' = w2"
    by (auto simp: assert_prelude_def split: if_splits)
  with getLocalSelectedChoice_drafts [OF g] fetchStamps_drafts [OF f] show ?thesis by auto
qed

lemma lookup_match_drafts:
  "lookup_match E p w = (m, w') \<Longrightarrow> drafts (lstore w') = drafts (lstore w)"
  by (auto simp: lookup_match_def split: prod.splits sum.splits if_splits option.splits list.splits
      dest: fetch_drafts)

lemma create_failure_drafts:
  assumes "create_on_exchange E p c w = (out, w')" and "\<forall>i. out \<noteq> Created i"
  shows "drafts (lstore w') = drafts (lstore w)"
proof -
  obtain r w1 where x: "exchangeFetchAuthed E ''/polls'' ''POST''
      (Some (CreateBody (creation_payload p (date_now E (tick w))))) (w\<lparr>tick := tick w + 1\<rparr>)
        = (r, w1)"
    by (cases "exchangeFetchAuthed E ''/polls'' ''POST''
      (Some (CreateBody (creation_payload p (date_now E (tick w))))) (w\<lparr>tick := tick w + 1\<rparr>)")
  from assms x have "w' = w1"
    by (auto simp: create_on_exchange_def Let_def
        split: sum.splits if_splits option.splits)
  with exchangeFetchAuthed_drafts [OF x] show ?thesis by simp
qed

text \<open>
  C5. When an assertion ends in any outcome other than a matched or a created remote poll,
  the local polls and the local vote states are what they were before; with no stored
  identity the outcome is the missing-identity failure and the world is unchanged, so no
  request at all is sent. Hence local state is purged only on a matched or created outcome.
\<close>

theorem assert_failure_keeps_draft:
  assumes "assertPollToExchange E localPoll w = (out, w')"
  shows "((\<forall>i. out \<noteq> Matched i \<and> out \<noteq> Created i) \<longrightarrow> drafts (lstore w') = drafts (lstore w))
     \<and> (is_draft localPoll \<and> getExchangeHmacCredsOrNull (lstore w) = None \<longrightarrow>
           out = MissingIdentityOutcome \<and> w' = w)
     \<and> (drafts (lstore w') \<noteq> drafts (lstore w) \<longrightarrow> (\<exists>i. out = Matched i \<or> out = Created i))"
proof -
  have main: "drafts (lstore w') = drafts (lstore w)" if no: "\<forall>i. out \<noteq> Matched i \<and> out \<noteq> Created i"
  proof (cases "is_draft localPoll \<and> getExchangeHmacCredsOrNull (lstore w) \<noteq> None")
    case False
    with assms have "w' = w"
      by (auto simp: assertPollToExchange_def split: if_splits option.splits)
    then show ?thesis by simp
  next
    case True
    obtain c w1 where p: "assert_prelude E localPoll w = (c, w1)"
      by (cases "assert_prelude E localPoll w")
    obtain m w2 where l: "lookup_match E localPoll w1 = (m, w2)"
      by (cases "lookup_match E localPoll w1")
    from assms True p l no have "create_on_exchange E localPoll c w2 = (out, w')"
      by (auto simp: assertPollToExchange_def Let_def split: option.splits)
    from create_failure_drafts [OF this] no assert_prelude_drafts [OF p] lookup_match_drafts [OF l]
    show ?thesis by simp
  qed
  have ident: "out = MissingIdentityOutcome \<and> w' = w"
    if "is_draft localPoll" "getExchangeHmacCredsOrNull (lstore w) = None"
    using assms that by (simp add: assertPollToExchange_def)
  from main ident show ?thesis by blast
qed

lemma no_create_refl: "no_create w w"
  by (simp add: no_create_def)

lemma no_create_trans: "no_create w w1 \<Longrightarrow> no_create w1 w2 \<Longrightarrow> no_create w w2"
  by (fastforce simp: no_create_def)

lemma no_create_upd [simp]:
  "no_create w (w'\<lparr>lstore := s\<rparr>) = no_create w w'"
  "no_create w (w'\<lparr>tick := t\<rparr>) = no_create w w'"
  "no_create (w\<lparr>lstore := s\<rparr>) w' = no_create w w'"
  "no_create (w\<lparr>tick := t\<rparr>) w' = no_create w w'"
  by (simp_all add: no_create_def)

lemma fetch_no_create: "fetch E rq w = (res, w') \<Longrightarrow> \<not> is_create rq \<Longrightarrow> no_create w w'"
  by (auto simp: no_create_def dest: fetch_sent)

lemma get_polls_not_create: "\<not> is_create (plain_request ''GET'' ''/polls'')"
  by (simp add: is_create_def plain_request_def)

lemma vote_not_create: "\<not> is_create (vote_request pollId oid st tok)"
  by (simp add: is_create_def vote_request_def)

lemma mint_no_create:
  assumes "fetchStampsFromExchange E w = (res, w')"
  shows "no_create w w'"
proof -
  from fetchStamps_sent [OF assms] obtain new where "sent w' = sent w @ new" "mint_only new"
    by blast
  then show ?thesis
    by (auto simp: no_create_def mint_only_def is_mint_def is_create_def)
qed

lemma getOrFetch_no_create:
  assumes "getOrFetchOneStampOrNull E w = (st, w')"
  shows "no_create w w'"
proof -
  from getOrFetch_sent [OF assms] obtain new where "sent w' = sent w @ new" "mint_only new"
    by blast
  then show ?thesis
    by (auto simp: no_create_def mint_only_def is_mint_def is_create_def)
qed

lemma retry_no_create:
  assumes "retry_after_403 E pollId oid label w = (ok, w')"
  shows "no_create w w'"
proof -
  obtain st w2 where g: "getOrFetchOneStampOrNull E (w\<lparr>lstore := clearExchangeStampPool (lstore w)\<rparr>)
      = (st, w2)"
    by (cases "getOrFetchOneStampOrNull E (w\<lparr>lstore := clearExchangeStampPool (lstore w)\<rparr>)")
  from getOrFetch_no_create [OF g] have n2: "no_create w w2" by simp
  show ?thesis
  proof (cases "\<exists>s. st = Some s \<and> s \<noteq> []")
    case False
    with assms g have "w' = w2"
      by (auto simp: retry_after_403_def Let_def split: option.splits)
    with n2 show ?thesis by simp
  next
    case True
    then obtain s where s: "st = Some s" "s \<noteq> []" by blast
    obtain r w3 where f: "fetch E (vote_request pollId oid (Some s) None) w2 = (r, w3)"
      by (cases "fetch E (vote_request pollId oid (Some s) None) w2")
    from assms g s f have "no_create w w' = no_create w w3"
      by (auto simp: retry_after_403_def Let_def split: sum.splits if_splits)
    with no_create_trans [OF n2 fetch_no_create [OF f vote_not_create]] show ?thesis by simp
  qed
qed

lemma send_vote_no_create:
  assumes "send_vote E pollId oid label stamp tok w = (res, w')"
  shows "no_create w w'"
proof -
  obtain r w1 where f: "fetch E (vote_request pollId oid stamp tok) w = (r, w1)"
    by (cases "fetch E (vote_request pollId oid stamp tok) w")
  obtain ok w2 where t: "retry_after_403 E pollId oid label w1 = (ok, w2)"
    by (cases "retry_after_403 E pollId oid label w1")
  note n1 = fetch_no_create [OF f vote_not_create]
  from assms f t have "no_create w w' = no_create w w1 \<or> w' = w2"
    by (auto simp: send_vote_def split: sum.splits if_splits bool.splits prod.splits)
  with n1 no_create_trans [OF n1 retry_no_create [OF t]] show ?thesis by auto
qed

lemma cast_no_create:
  assumes "castExchangeVoteByLabel E p label w = (res, w')"
  shows "no_create w w'"
proof -
  obtain st w1 where g: "getOrFetchOneStampOrNull E w = (st, w1)"
    by (cases "getOrFetchOneStampOrNull E w")
  note n1 = getOrFetch_no_create [OF g]
  from assms g have "w' = w \<or> w' = w1
      \<or> (\<exists>pollId oid stamp tok. send_vote E pollId oid label stamp tok w = (res, w'))
      \<or> (\<exists>pollId oid stamp tok. send_vote E pollId oid label stamp tok w1 = (res, w'))"
    by (auto simp: castExchangeVoteByLabel_def Let_def split: if_splits option.splits)
  with n1 send_vote_no_create no_create_refl no_create_trans show ?thesis by metis
qed

lemma snd_cast_no_create: "no_create w (snd (castExchangeVoteByLabel E p label w))"
  by (cases "castExchangeVoteByLabel E p label w") (simp add: cast_no_create)

lemma getLocalSelectedChoice_no_create:
  "getLocalSelectedChoice E p w = (c, w') \<Longrightarrow> no_create w w'"
  by (auto simp: getLocalSelectedChoice_def ensureLocalToken_def Let_def no_create_refl
      split: if_splits prod.splits option.splits)

lemma prelude_no_create:
  assumes "assert_prelude E p w = (c, w')"
  shows "no_create w w'"
proof -
  obtain c1 w1 where g: "getLocalSelectedChoice E p w = (c1, w1)"
    by (cases "getLocalSelectedChoice E p w")
  obtain r w2 where f: "fetchStampsFromExchange E w1 = (r, w2)"
    by (cases "fetchStampsFromExchange E w1")
  from assms g f have "w' = w1 \<or> w' = w2"
    by (auto simp: assert_prelude_def split: if_splits)
  with getLocalSelectedChoice_no_create [OF g] mint_no_create [OF f] no_create_trans
  show ?thesis by blast
qed

lemma lookup_no_create:
  assumes "lookup_match E p w = (m, w')"
  shows "no_create w w'"
proof -
  obtain r w1 where f: "fetch E (plain_request ''GET'' ''/polls'') w = (r, w1)"
    by (cases "fetch E (plain_request ''GET'' ''/polls'') w")
  from assms f have "w' = w1"
    by (auto simp: lookup_match_def split: sum.splits if_splits option.splits list.splits)
  with fetch_no_create [OF f get_polls_not_create] show ?thesis by simp
qed

lemma carry_no_create: "no_create w (carry_vote_to_match E found c w)"
proof -
  obtain r w1 where f: "fetch E (plain_request ''GET'' ''/polls'') w = (r, w1)"
    by (cases "fetch E (plain_request ''GET'' ''/polls'') w")
  note n1 = fetch_no_create [OF f get_polls_not_create]
  from f have "carry_vote_to_match E found c w = w1
      \<or> (\<exists>full. carry_vote_to_match E found c w = snd (castExchangeVoteByLabel E full c w1))"
    by (auto simp: carry_vote_to_match_def split: sum.splits if_splits option.splits)
  with n1 no_create_trans [OF n1 snd_cast_no_create] show ?thesis by auto
qed

lemma refreshPolls_no_create: "no_create w (refreshPolls E w)"
proof -
  obtain r w1 where f: "fetch E (plain_request ''GET'' ''/polls'') w = (r, w1)"
    by (cases "fetch E (plain_request ''GET'' ''/polls'') w")
  from fetch_no_create [OF f get_polls_not_create] f
  show ?thesis by (simp add: refreshPolls_def)
qed

lemma openPoll_remote_no_create: "no_create w (openPoll_remote E target w)"
proof -
  have g: "no_create w (snd (getLocalSelectedChoice E full w))" for full
    by (cases "getLocalSelectedChoice E full w") (simp add: getLocalSelectedChoice_no_create)
  from g refreshPolls_no_create [of w E] show ?thesis
    by (simp add: openPoll_remote_def refreshPolls_def no_create_refl Let_def)
qed

lemma finish_no_create: "no_create w (finish_assert E pollId target w)"
proof -
  have "no_create w (refreshPolls E (w\<lparr>lstore := purgeLocalPollState pollId (lstore w)\<rparr>))"
    using refreshPolls_no_create [of "w\<lparr>lstore := purgeLocalPollState pollId (lstore w)\<rparr>" E]
    by simp
  from no_create_trans [OF this openPoll_remote_no_create] show ?thesis
    by (simp add: finish_assert_def)
qed

lemma set_insert_by: "set (insert_by cmp x ys) = insert x (set ys)"
  by (induction ys) auto

lemma set_sort_by: "set (sort_by cmp xs) = set xs"
  unfolding sort_by_def by (induction xs) (simp_all add: set_insert_by)

lemma sorted_insert_by:
  assumes tot: "\<And>a b. cmp a b \<le> 0 \<or> cmp b a \<le> 0"
    and tr: "\<And>a b c. cmp a b \<le> 0 \<Longrightarrow> cmp b c \<le> 0 \<Longrightarrow> cmp a c \<le> 0"
  shows "sorted_wrt (\<lambda>a b. cmp a b \<le> 0) ys \<Longrightarrow> sorted_wrt (\<lambda>a b. cmp a b \<le> 0) (insert_by cmp x ys)"
proof (induction ys)
  case Nil
  then show ?case by simp
next
  case (Cons y ys)
  show ?case
  proof (cases "cmp x y \<le> 0")
    case True
    with Cons.prems tr show ?thesis by auto
  next
    case False
    with tot [of x y] have "cmp y x \<le> 0" by simp
    with False Cons show ?thesis by (auto simp: set_insert_by)
  qed
qed

lemma sorted_sort_by:
  assumes tot: "\<And>a b. cmp a b \<le> 0 \<or> cmp b a \<le> 0"
    and tr: "\<And>a b c. cmp a b \<le> 0 \<Longrightarrow> cmp b c \<le> 0 \<Longrightarrow> cmp a c \<le> 0"
  shows "sorted_wrt (\<lambda>a b. cmp a b \<le> 0) (sort_by cmp xs)"
  unfolding sort_by_def
  by (induction xs) (simp_all add: sorted_insert_by [OF tot tr])

lemma head_of_sort_by:
  assumes "sort_by cmp xs = found # others"
  shows "found \<in> set xs"
    and "(\<And>a b. cmp a b \<le> 0 \<or> cmp b a \<le> 0) \<Longrightarrow>
         (\<And>a b c. cmp a b \<le> 0 \<Longrightarrow> cmp b c \<le> 0 \<Longrightarrow> cmp a c \<le> 0) \<Longrightarrow>
         m \<in> set xs \<Longrightarrow> cmp found m \<le> 0"
proof -
  from assms set_sort_by [of cmp xs] show "found \<in> set xs" by auto
next
  assume tot: "\<And>a b. cmp a b \<le> 0 \<or> cmp b a \<le> 0"
    and tr: "\<And>a b c. cmp a b \<le> 0 \<Longrightarrow> cmp b c \<le> 0 \<Longrightarrow> cmp a c \<le> 0"
    and m: "m \<in> set xs"
  from sorted_sort_by [of cmp xs, OF tot tr] assms
  have s: "\<forall>y \<in> set others. cmp found y \<le> 0" by simp
  from m set_sort_by [of cmp xs] assms have "m = found \<or> m \<in> set others" by auto
  with s tot [of found found] show "cmp found m \<le> 0" by auto
qed

lemma newest_first_consistent:
  assumes "consistent_compare (locale_compare E)"
  shows "newest_first E a b \<le> 0 \<or> newest_first E b a \<le> 0"
    and "newest_first E a b \<le> 0 \<Longrightarrow> newest_first E b c \<le> 0 \<Longrightarrow> newest_first E a c \<le> 0"
  using assms unfolding consistent_compare_def newest_first_def by blast+

lemma assert_matched_run:
  assumes draft: "is_draft localPoll"
    and creds: "getExchangeHmacCredsOrNull (lstore w) \<noteq> None"
    and prelude: "assert_prelude E localPoll w = (choice, w1)"
    and listed: "respond E (remote w1) (plain_request ''GET'' ''/polls'')
                   = (Response status (Some d), s')"
    and ok: "resp_ok status"
    and polls: "rj_polls d = Some polls"
    and srt: "sort_by (newest_first E) (matches_of localPoll polls) = found # others"
  shows "fst (assertPollToExchange E localPoll w) = Matched (poll_id found)"
    and "no_create w (snd (assertPollToExchange E localPoll w))"
proof -
  define w2 where "w2 = w1\<lparr>remote := s', sent := sent w1 @ [plain_request ''GET'' ''/polls'']\<rparr>"
  have look: "lookup_match E localPoll w1 = (Some found, w2)"
    using listed ok polls srt by (simp add: lookup_match_def fetch_def Let_def w2_def)
  define w3 where "w3 = (case choice of None \<Rightarrow> w2
                         | Some c \<Rightarrow> carry_vote_to_match E found c w2)"
  have res: "assertPollToExchange E localPoll w
      = (Matched (poll_id found), finish_assert E (poll_id localPoll) (poll_id found) w3)"
    using draft creds prelude look
    by (auto simp: assertPollToExchange_def Let_def w3_def)
  have n3: "no_create w2 w3"
    by (cases choice) (simp_all add: w3_def no_create_refl carry_no_create)
  have "no_create w (finish_assert E (poll_id localPoll) (poll_id found) w3)"
    using no_create_trans [OF prelude_no_create [OF prelude]
        no_create_trans [OF lookup_no_create [OF look] no_create_trans [OF n3 finish_no_create]]] .
  with res show "fst (assertPollToExchange E localPoll w) = Matched (poll_id found)"
    and "no_create w (snd (assertPollToExchange E localPoll w))"
    by simp_all
qed

text \<open>
  One assertion, whatever the Exchange does otherwise: when the answer to \<^verbatim>\<open>GET /polls\<close> at
  the merge check lists a poll whose \<^verbatim>\<open>meta.created_local_id\<close> is the draft's local key,
  the assertion ends with such a poll as its target and sends no creation request; among
  several matches the target is one that no other match follows in the order of
  \<^verbatim>\<open>created_at\<close>, for a consistent collation.
\<close>

lemma assert_reuses_listed_match:
  assumes draft: "is_draft localPoll"
    and creds: "getExchangeHmacCredsOrNull (lstore w) \<noteq> None"
    and prelude: "assert_prelude E localPoll w = (choice, w1)"
    and listed: "respond E (remote w1) (plain_request ''GET'' ''/polls'')
                   = (Response status (Some d), s')"
    and ok: "resp_ok status"
    and polls: "rj_polls d = Some polls"
    and some: "matches_of localPoll polls \<noteq> []"
  shows "\<exists>found. fst (assertPollToExchange E localPoll w) = Matched (poll_id found)
     \<and> found \<in> set polls
     \<and> meta_created_local_id found = local_key localPoll
     \<and> (consistent_compare (locale_compare E) \<longrightarrow>
          (\<forall>m \<in> set (matches_of localPoll polls).
             locale_compare E (created_at m) (created_at found) \<le> 0))
     \<and> (\<forall>rq \<in> set (new_requests w (snd (assertPollToExchange E localPoll w))).
            \<not> is_create rq)"
proof -
  from some have "sort_by (newest_first E) (matches_of localPoll polls) \<noteq> []"
    using set_sort_by [of "newest_first E" "matches_of localPoll polls"] by fastforce
  then obtain found others where
    srt: "sort_by (newest_first E) (matches_of localPoll polls) = found # others"
    by (cases "sort_by (newest_first E) (matches_of localPoll polls)") auto
  note run = assert_matched_run [OF draft creds prelude listed ok polls srt]
  from head_of_sort_by(1) [OF srt] have mem: "found \<in> set (matches_of localPoll polls)" .
  have newest: "locale_compare E (created_at m) (created_at found) \<le> 0"
    if "consistent_compare (locale_compare E)" "m \<in> set (matches_of localPoll polls)" for m
    using head_of_sort_by(2) [OF srt newest_first_consistent [OF that(1)] that(2)]
    by (simp add: newest_first_def)
  from run(2) have nc: "\<forall>rq \<in> set (new_requests w
      (snd (assertPollToExchange E localPoll w))). \<not> is_create rq"
    by (auto simp: no_create_def new_requests_def)
  from run(1) mem newest nc show ?thesis
    by (intro exI [of _ found]) (auto simp: matches_of_def)
qed

section \<open>The assertion against the remote index\<close>

text \<open>
  Every step of the client extends the list of sent requests, leaves the remote state as
  the server leaves it after those requests, and keeps the stored identity.
\<close>

lemma toUpperCase_POST: "toUpperCase ''POST'' = ''POST''"
  by (simp add: toUpperCase_def upper_char_def)

lemma trace_refl: "trace E w w"
  by (simp add: trace_def run_server_def)


lemma trace_tick [simp]:
  "trace E w (w'\<lparr>tick := t\<rparr>) = trace E w w'"
  "trace E (w\<lparr>tick := t\<rparr>) w' = trace E w w'"
  by (simp_all add: trace_def)

lemma trace_store:
  "trace E w w' \<Longrightarrow> identity_of s = identity_of (lstore w') \<Longrightarrow> trace E w (w'\<lparr>lstore := s\<rparr>)"
  by (simp add: trace_def)


lemma identity_upd [simp]:
  "identity_of (s\<lparr>exchange_stamps := a\<rparr>) = identity_of s"
  "identity_of (s\<lparr>exchange_persona_id := b\<rparr>) = identity_of s"
  "identity_of (s\<lparr>breadpoll_tokens := c\<rparr>) = identity_of s"
  "identity_of (s\<lparr>breadpoll_remote_last_choice := d\<rparr>) = identity_of s"
  "identity_of (s\<lparr>breadpoll_local_polls := e\<rparr>) = identity_of s"
  "identity_of (s\<lparr>breadpoll_local_votes := f\<rparr>) = identity_of s"
  by (simp_all add: identity_of_def)

lemma identity_store_mint_response: "identity_of (store_mint_response d s) = identity_of s"
  by (simp add: store_mint_response_def addStampsToPool_def Let_def split: option.splits)





lemma fetch_trace: "fetch E rq w = (res, w') \<Longrightarrow> trace E w w'"
  unfolding trace_def run_server_def
  by (auto simp: fetch_def Let_def split: prod.splits response.splits intro!: exI [of _ "[rq]"])


lemma exchangeFetchAuthed_trace:
  assumes "exchangeFetchAuthed E path m b w = (res, w')"
  shows "trace E w w'"
proof (cases "exchangeFetchAuthed_request (platform E) (lstore w) (date_now E (tick w))
             (random_values E (tick w)) path (Some m) b")
  case (Inl e)
  with assms show ?thesis by (auto simp: exchangeFetchAuthed_def Let_def trace_refl)
next
  case (Inr rq)
  with assms have "fetch E rq (w\<lparr>tick := tick w + 1\<rparr>) = (res, w')"
    by (simp add: exchangeFetchAuthed_def Let_def)
  from fetch_trace [OF this] show ?thesis by simp
qed

lemma fetchStamps_trace:
  assumes "fetchStampsFromExchange E w = (res, w')"
  shows "trace E w w'"
proof (cases "getExchangeHmacCredsOrNull (lstore w)")
  case None
  with assms show ?thesis by (simp add: fetchStampsFromExchange_def trace_refl)
next
  case (Some creds)
  obtain r w1 where x: "exchangeFetchAuthed E ''/stamp'' ''POST'' (Some StampBody) w = (r, w1)"
    by (cases "exchangeFetchAuthed E ''/stamp'' ''POST'' (Some StampBody) w")
  from assms Some x have "w' = w1
      \<or> (\<exists>s. w' = w1\<lparr>lstore := s\<rparr> \<and> identity_of s = identity_of (lstore w1))"
    by (auto simp: fetchStampsFromExchange_def identity_store_mint_response
        split: sum.splits option.splits prod.splits)
  with exchangeFetchAuthed_trace [OF x] show ?thesis
    by (auto intro: trace_store)
qed

lemma snd_fetchStamps_trace: "trace E w (snd (fetchStampsFromExchange E w))"
  by (cases "fetchStampsFromExchange E w") (simp add: fetchStamps_trace)
























section \<open>The assertion on concrete worlds\<close>

lemmas assert_eval = assertPollToExchange_def assert_prelude_def lookup_match_def
  create_on_exchange_def carry_vote_to_match_def finish_assert_def refreshPolls_def openPoll_remote_def
  getLocalSelectedChoice_def ensureLocalToken_def purgeLocalPollState_def
  creation_payload_def option_text_def local_key_def matches_of_def is_draft_def
  sort_by_def newest_first_def plain_request_def exchange_index_def created_poll_def
  answers_500_def lunch_draft_def draft_storage_def draft_world_def anonymous_world_def
  drafts_def is_create_def new_requests_def signPath_api

theorem assert_failure_keeps_draft_witness:
  "fst (assertPollToExchange (toy_env answers_500) lunch_draft (draft_world ())) = AssertFailed 500
   \<and> drafts (lstore (snd (assertPollToExchange (toy_env answers_500) lunch_draft (draft_world ()))))
       = drafts (lstore (draft_world ()))
   \<and> assertPollToExchange (toy_env answers_500) lunch_draft anonymous_world
       = (MissingIdentityOutcome, anonymous_world)"
proof -
  have f: "fst (assertPollToExchange (toy_env answers_500) lunch_draft (draft_world ()))
      = AssertFailed 500"
    by (simp add: assert_eval world_eval toUpperCase_POST)
  have d: "is_draft lunch_draft" by (simp add: is_draft_def lunch_draft_def)
  have n: "getExchangeHmacCredsOrNull (lstore anonymous_world) = None"
    by (simp add: anonymous_world_def getExchangeHmacCredsOrNull_def getExchangeSelfIdOrNull_def
        getExchangeSigningKeyOrNull_def trimmed_item_def trim_def)
  from assert_failure_keeps_draft [OF prod.collapse [symmetric],
      of "toy_env answers_500" lunch_draft "draft_world ()"] f
  have k: "drafts (lstore (snd (assertPollToExchange (toy_env answers_500) lunch_draft
      (draft_world ())))) = drafts (lstore (draft_world ()))"
    by simp
  from assert_failure_keeps_draft [OF prod.collapse [symmetric],
      of "toy_env answers_500" lunch_draft anonymous_world] d n
  have "assertPollToExchange (toy_env answers_500) lunch_draft anonymous_world
       = (MissingIdentityOutcome, anonymous_world)"
    by (metis prod.collapse)
  with f k show ?thesis by simp
qed




end
